theory Spec2Isabelle
  imports Complex_Main "HOL-Library.Log_Nat"
begin

section \<open>Python floats (IEEE 754 binary64, round to nearest, ties to even)\<close>

text \<open>
  The source computes costs, durations and confidence comparisons on Python floats.
  A finite float is modelled by the rational number it denotes; every arithmetic
  operation computes the exact rational result and rounds it to the nearest binary64
  value. The two zeros are not distinguished (they compare equal in Python, and the
  modelled code never divides by a computed value).
\<close>

text \<open>The exponent \<open>e\<close> with \<open>2 ^ e \<le> x < 2 ^ (e + 1)\<close>, for \<open>0 < x\<close>.\<close>

definition floor_log2 :: "rat \<Rightarrow> int" where
  "floor_log2 x = (if 1 \<le> x then bitlen \<lfloor>x\<rfloor> - 1 else - bitlen (\<lceil>1 / x\<rceil> - 1))"

definition round_half_even :: "rat \<Rightarrow> int" where
  "round_half_even x =
     (let f = \<lfloor>x\<rfloor>; d = x - of_int f
      in if d < 1 / 2 then f else if 1 / 2 < d then f + 1 else if even f then f else f + 1)"

text \<open>
  The spacing of binary64 values around \<open>x\<close>: 53 significant bits, and the fixed
  spacing \<open>2 ^ - 1074\<close> of the subnormal range below \<open>2 ^ - 1022\<close>.
\<close>

definition eff_exp :: "rat \<Rightarrow> int" where
  "eff_exp x = max (floor_log2 x) (- 1022)"

definition ulp :: "rat \<Rightarrow> rat" where
  "ulp x = 2 powi (eff_exp x - 52)"

definition fl_round :: "rat \<Rightarrow> rat" where
  "fl_round x =
     (if x = 0 then 0
      else if 0 < x then of_int (round_half_even (x / ulp x)) * ulp x
      else - (of_int (round_half_even (- x / ulp (- x))) * ulp (- x)))"

definition max_double :: rat where
  "max_double = (2 ^ 53 - 1) * 2 ^ 971"

datatype py_float = Fin rat | PInf | NInf | NaN

text \<open>Rounding an exact result to a float; a result beyond the largest float is infinite.\<close>

definition to_double :: "rat \<Rightarrow> py_float" where
  "to_double x =
     (let r = fl_round x
      in if max_double < r then PInf else if r < - max_double then NInf else Fin r)"

text \<open>A rational that is the value of some finite float.\<close>

definition is_binary64 :: "rat \<Rightarrow> bool" where
  "is_binary64 q = (fl_round q = q \<and> \<bar>q\<bar> \<le> max_double)"

text \<open>A decimal float literal of the source, such as \<^verbatim>\<open>0.85\<close>.\<close>

definition float_literal :: "rat \<Rightarrow> py_float" where
  "float_literal q = to_double q"

fun float_neg :: "py_float \<Rightarrow> py_float" where
  "float_neg (Fin a) = Fin (- a)"
| "float_neg PInf = NInf"
| "float_neg NInf = PInf"
| "float_neg NaN = NaN"

fun float_add :: "py_float \<Rightarrow> py_float \<Rightarrow> py_float" where
  "float_add (Fin a) (Fin b) = to_double (a + b)"
| "float_add NaN y = NaN"
| "float_add x NaN = NaN"
| "float_add PInf NInf = NaN"
| "float_add NInf PInf = NaN"
| "float_add PInf y = PInf"
| "float_add x PInf = PInf"
| "float_add NInf y = NInf"
| "float_add x NInf = NInf"

definition float_sub :: "py_float \<Rightarrow> py_float \<Rightarrow> py_float" where
  "float_sub x y = float_add x (float_neg y)"

fun float_mul :: "py_float \<Rightarrow> py_float \<Rightarrow> py_float" where
  "float_mul (Fin a) (Fin b) = to_double (a * b)"
| "float_mul NaN y = NaN"
| "float_mul x NaN = NaN"
| "float_mul PInf (Fin b) = (if b = 0 then NaN else if 0 < b then PInf else NInf)"
| "float_mul NInf (Fin b) = (if b = 0 then NaN else if 0 < b then NInf else PInf)"
| "float_mul (Fin a) PInf = (if a = 0 then NaN else if 0 < a then PInf else NInf)"
| "float_mul (Fin a) NInf = (if a = 0 then NaN else if 0 < a then NInf else PInf)"
| "float_mul PInf PInf = PInf"
| "float_mul PInf NInf = NInf"
| "float_mul NInf PInf = NInf"
| "float_mul NInf NInf = PInf"

text \<open>Python's \<^verbatim>\<open><\<close> on floats: every comparison with NaN is false.\<close>

fun float_lt :: "py_float \<Rightarrow> py_float \<Rightarrow> bool" where
  "float_lt (Fin a) (Fin b) = (a < b)"
| "float_lt NaN y = False"
| "float_lt x NaN = False"
| "float_lt x NInf = False"
| "float_lt PInf y = False"
| "float_lt NInf y = True"
| "float_lt x PInf = True"

definition float_gt :: "py_float \<Rightarrow> py_float \<Rightarrow> bool" where
  "float_gt x y = float_lt y x"


section \<open>Exceptions, the world, and actions\<close>

text \<open>
  A raised object carries the name of its type (\<^verbatim>\<open>type(e).__name__\<close>), its text
  (\<^verbatim>\<open>str(e)\<close>), and whether it is an instance of \<^verbatim>\<open>Exception\<close>: the handlers of
  the source are \<^verbatim>\<open>except Exception\<close>, which lets a bare \<^verbatim>\<open>BaseException\<close>
  (\<^verbatim>\<open>KeyboardInterrupt\<close>, \<^verbatim>\<open>SystemExit\<close>) pass.
\<close>

datatype py_exc = PyExc (is_Exception: bool) (exc_type: string) (exc_msg: string)

definition OverflowError :: py_exc where
  "OverflowError = PyExc True ''OverflowError'' ''int too large to convert to float''"

text \<open>
  Modelled from the spec: the errors of the metric registry, which is the
  \<^verbatim>\<open>prometheus_client\<close> library and not part of the sources. The library raises both
  as \<^verbatim>\<open>ValueError\<close>.
\<close>

definition InvalidValue :: py_exc where
  "InvalidValue =
     PyExc True ''ValueError'' ''Counters can only be incremented by non-negative amounts.''"

definition LabelMismatch :: py_exc where
  "LabelMismatch = PyExc True ''ValueError'' ''Incorrect label count''"

text \<open>Conversion of a Python int to float, as done by \<^verbatim>\<open>int * float\<close>.\<close>

definition int_to_float :: "int \<Rightarrow> py_exc + py_float" where
  "int_to_float i = (case to_double (of_int i) of Fin r \<Rightarrow> Inr (Fin r) | _ \<Rightarrow> Inl OverflowError)"

definition int_mul_float :: "int \<Rightarrow> py_float \<Rightarrow> py_exc + py_float" where
  "int_mul_float i y = (case int_to_float i of Inl e \<Rightarrow> Inl e | Inr x \<Rightarrow> Inr (float_mul x y))"

subsection \<open>The metric registry\<close>

datatype counter =
    tickets_processed_total
  | tickets_resolved_auto_total
  | tickets_escalated_total
  | http_requests_total
  | llm_api_requests_total
  | llm_api_errors_total
  | llm_tokens_total
  | llm_api_cost_dollars
  | aws_compute_cost_dollars
  | aws_database_cost_dollars
  | vector_db_cost_dollars
  | monitoring_cost_dollars
  | total_monthly_cost_dollars
  | aws_infrastructure_cost_dollars

datatype histogram =
    response_duration_milliseconds
  | llm_response_duration_seconds
  | vector_search_duration_milliseconds
  | database_query_duration_milliseconds

datatype gauge =
    queue_depth
  | db_connections_active
  | db_connections_max
  | db_connections_idle
  | customer_satisfaction_score
  | ai_confidence_score
  | cost_budget_monthly
  | support_agent_cost_savings_dollars
  | monthly_cost_savings_dollars

text \<open>The label names each instrument is declared with.\<close>

fun counter_labelnames :: "counter \<Rightarrow> string list" where
  "counter_labelnames tickets_processed_total = [''category'', ''environment'', ''channel'']"
| "counter_labelnames tickets_resolved_auto_total = [''category'', ''confidence_tier'']"
| "counter_labelnames tickets_escalated_total = [''category'', ''escalation_reason'']"
| "counter_labelnames http_requests_total = [''method'', ''endpoint'', ''status'']"
| "counter_labelnames llm_api_requests_total = [''provider'', ''model'', ''status'']"
| "counter_labelnames llm_api_errors_total = [''provider'', ''error_type'']"
| "counter_labelnames llm_tokens_total = [''provider'', ''model'', ''token_type'']"
| "counter_labelnames llm_api_cost_dollars = [''provider'', ''model'']"
| "counter_labelnames aws_compute_cost_dollars = [''resource_type'']"
| "counter_labelnames aws_database_cost_dollars = [''service'']"
| "counter_labelnames vector_db_cost_dollars = []"
| "counter_labelnames monitoring_cost_dollars = [''tool'']"
| "counter_labelnames total_monthly_cost_dollars = []"
| "counter_labelnames aws_infrastructure_cost_dollars = []"

fun histogram_labelnames :: "histogram \<Rightarrow> string list" where
  "histogram_labelnames response_duration_milliseconds = []"
| "histogram_labelnames llm_response_duration_seconds = [''provider'', ''model'']"
| "histogram_labelnames vector_search_duration_milliseconds = []"
| "histogram_labelnames database_query_duration_milliseconds = [''query_type'']"

fun gauge_labelnames :: "gauge \<Rightarrow> string list" where
  "gauge_labelnames queue_depth = [''priority'']"
| "gauge_labelnames db_connections_active = []"
| "gauge_labelnames db_connections_max = []"
| "gauge_labelnames db_connections_idle = []"
| "gauge_labelnames customer_satisfaction_score = []"
| "gauge_labelnames ai_confidence_score = [''category'']"
| "gauge_labelnames cost_budget_monthly = [''category'']"
| "gauge_labelnames support_agent_cost_savings_dollars = []"
| "gauge_labelnames monthly_cost_savings_dollars = []"

text \<open>
  Modelled from the spec: the state of the metric registry (\<^verbatim>\<open>prometheus_client\<close>,
  not part of the sources). Each instrument holds one time series per label-value
  tuple, created on first use: a counter series its running total, a histogram series
  its observations in order (bucket counts, sum and count are functions of them), a
  gauge series the value last set.
\<close>

record registry =
  counter_values :: "counter \<Rightarrow> string list \<rightharpoonup> py_float"
  histogram_obs :: "histogram \<Rightarrow> string list \<rightharpoonup> py_float list"
  gauge_values :: "gauge \<Rightarrow> string list \<rightharpoonup> py_float"

text \<open>
  Modelled from the spec: the registry at process start. An instrument declared
  without labels has its single series from the declaration on; labelled series do
  not exist yet.
\<close>

definition initial_registry :: registry where
  "initial_registry =
     \<lparr>counter_values = (\<lambda>c. if counter_labelnames c = [] then [[] \<mapsto> Fin 0] else Map.empty),
      histogram_obs = (\<lambda>h. if histogram_labelnames h = [] then [[] \<mapsto> []] else Map.empty),
      gauge_values = (\<lambda>g. if gauge_labelnames g = [] then [[] \<mapsto> Fin 0] else Map.empty)\<rparr>"

text \<open>
  Modelled from the spec: the numeric value of a counter is the exact sum of its
  increments. Infinite and NaN amounts behave as in float addition.
\<close>

fun num_add :: "py_float \<Rightarrow> py_float \<Rightarrow> py_float" where
  "num_add (Fin a) (Fin b) = Fin (a + b)"
| "num_add NaN y = NaN"
| "num_add x NaN = NaN"
| "num_add PInf NInf = NaN"
| "num_add NInf PInf = NaN"
| "num_add PInf y = PInf"
| "num_add x PInf = PInf"
| "num_add NInf y = NInf"
| "num_add x NInf = NInf"

text \<open>The value of a counter series in a snapshot; a series never used reads as zero.\<close>

definition counter_value :: "registry \<Rightarrow> counter \<Rightarrow> string list \<Rightarrow> py_float" where
  "counter_value r c ls = (case counter_values r c ls of None \<Rightarrow> Fin 0 | Some v \<Rightarrow> v)"

definition observations :: "registry \<Rightarrow> histogram \<Rightarrow> string list \<Rightarrow> py_float list" where
  "observations r h ls = (case histogram_obs r h ls of None \<Rightarrow> [] | Some vs \<Rightarrow> vs)"

text \<open>The registry updates of the three kinds of instrument.\<close>

definition add_to_counter :: "counter \<Rightarrow> string list \<Rightarrow> py_float \<Rightarrow> registry \<Rightarrow> registry" where
  "add_to_counter c ls amount r =
     r\<lparr>counter_values := (counter_values r)
          (c := (counter_values r c)(ls \<mapsto> num_add (counter_value r c ls) amount))\<rparr>"

definition add_observation :: "histogram \<Rightarrow> string list \<Rightarrow> py_float \<Rightarrow> registry \<Rightarrow> registry" where
  "add_observation h ls v r =
     r\<lparr>histogram_obs := (histogram_obs r)
          (h := (histogram_obs r h)(ls \<mapsto> observations r h ls @ [v]))\<rparr>"

definition put_gauge :: "gauge \<Rightarrow> string list \<Rightarrow> py_float \<Rightarrow> registry \<Rightarrow> registry" where
  "put_gauge g ls v r =
     r\<lparr>gauge_values := (gauge_values r)(g := (gauge_values r g)(ls \<mapsto> v))\<rparr>"

subsection \<open>The world and actions on it\<close>

datatype log_level = WARNING | ERROR

text \<open>
  What the instrumented code reads and writes: the process-wide registry, the records
  emitted through \<^verbatim>\<open>logger\<close>, and the reading of \<^verbatim>\<open>time.time()\<close>.
\<close>

record world =
  REGISTRY :: registry
  logger :: "(log_level \<times> string) list"
  clock :: rat

definition initial_world :: world where
  "initial_world = \<lparr>REGISTRY = initial_registry, logger = [], clock = 0\<rparr>"

text \<open>An action runs in a world and either raises or returns, leaving a new world.\<close>

type_synonym 'a act = "world \<Rightarrow> (py_exc + 'a) \<times> world"

definition return :: "'a \<Rightarrow> 'a act" where
  "return v w = (Inr v, w)"

definition raise :: "py_exc \<Rightarrow> 'a act" where
  "raise e w = (Inl e, w)"

definition bind_act :: "'a act \<Rightarrow> ('a \<Rightarrow> 'b act) \<Rightarrow> 'b act" where
  "bind_act m k w = (case m w of (Inl e, w') \<Rightarrow> (Inl e, w') | (Inr v, w') \<Rightarrow> k v w')"

text \<open>\<^verbatim>\<open>try: body except Exception as e: handler\<close>\<close>

definition try_except_Exception :: "'a act \<Rightarrow> (py_exc \<Rightarrow> 'a act) \<Rightarrow> 'a act" where
  "try_except_Exception body handler w =
     (case body w of
        (Inl e, w') \<Rightarrow> if is_Exception e then handler e w' else (Inl e, w')
      | (Inr v, w') \<Rightarrow> (Inr v, w'))"

definition lift_result :: "py_exc + 'a \<Rightarrow> 'a act" where
  "lift_result x w = (x, w)"

definition time_time :: "py_float act" where
  "time_time w = (Inr (Fin (clock w)), w)"

definition logger_error :: "string \<Rightarrow> unit act" where
  "logger_error msg w = (Inr (), w\<lparr>logger := logger w @ [(ERROR, msg)]\<rparr>)"

definition logger_warning :: "string \<Rightarrow> unit act" where
  "logger_warning msg w = (Inr (), w\<lparr>logger := logger w @ [(WARNING, msg)]\<rparr>)"

text \<open>
  Modelled from the spec: the operations of the metric registry. Each takes a
  label-value tuple matching the declared label names and fails with
  \<open>LabelMismatch\<close> if the arity differs; a counter rejects a negative increment with
  \<open>InvalidValue\<close>. A rejected operation leaves the registry as it was.
\<close>

definition counter_inc :: "counter \<Rightarrow> string list \<Rightarrow> py_float \<Rightarrow> unit act" where
  "counter_inc c ls amount w =
     (if length ls \<noteq> length (counter_labelnames c) then (Inl LabelMismatch, w)
      else if float_lt amount (Fin 0) then (Inl InvalidValue, w)
      else (Inr (), w\<lparr>REGISTRY := add_to_counter c ls amount (REGISTRY w)\<rparr>))"

text \<open>
  Modelled from the spec: \<^verbatim>\<open>inc(amount)\<close> with a Python int as the amount. The
  counter holds a float, so after the checks of the label arity and of the sign the int
  is converted as Python converts it in \<^verbatim>\<open>float += int\<close>: rounded to the nearest
  float, with \<^verbatim>\<open>OverflowError\<close> for an int beyond the floats.
\<close>

definition counter_inc_int :: "counter \<Rightarrow> string list \<Rightarrow> int \<Rightarrow> unit act" where
  "counter_inc_int c ls amount w =
     (if length ls \<noteq> length (counter_labelnames c) then (Inl LabelMismatch, w)
      else if amount < 0 then (Inl InvalidValue, w)
      else (case int_to_float amount of
              Inl e \<Rightarrow> (Inl e, w)
            | Inr x \<Rightarrow> counter_inc c ls x w))"

definition histogram_observe :: "histogram \<Rightarrow> string list \<Rightarrow> py_float \<Rightarrow> unit act" where
  "histogram_observe h ls v w =
     (if length ls \<noteq> length (histogram_labelnames h) then (Inl LabelMismatch, w)
      else (Inr (), w\<lparr>REGISTRY := add_observation h ls v (REGISTRY w)\<rparr>))"

definition gauge_set :: "gauge \<Rightarrow> string list \<Rightarrow> py_float \<Rightarrow> unit act" where
  "gauge_set g ls v w =
     (if length ls \<noteq> length (gauge_labelnames g) then (Inl LabelMismatch, w)
      else (Inr (), w\<lparr>REGISTRY := put_gauge g ls v (REGISTRY w)\<rparr>))"

section \<open>The cost model\<close>

text \<open>
  One entry of the price table, \<^verbatim>\<open>{'input': ..., 'output': ...}\<close>, in dollars per
  token.
\<close>

record rates =
  input_rate :: py_float
  output_rate :: py_float

text \<open>
  The table entry \<^verbatim>\<open>x / 1_000_000\<close> for a float literal \<open>x\<close> that binary64
  represents exactly: one float division by a non-zero constant.
\<close>

definition per_token :: "rat \<Rightarrow> py_float" where
  "per_token x = to_double (x / 1000000)"

definition pricing :: "(string \<times> (string \<times> rates) list) list" where
  "pricing =
     [(''anthropic'',
        [(''claude-sonnet-4'', \<lparr>input_rate = per_token 3, output_rate = per_token 15\<rparr>),
         (''claude-haiku'', \<lparr>input_rate = per_token (1 / 4), output_rate = per_token (5 / 4)\<rparr>)]),
      (''openai'',
        [(''gpt-4'', \<lparr>input_rate = per_token 30, output_rate = per_token 60\<rparr>),
         (''gpt-3.5-turbo'', \<lparr>input_rate = per_token (1 / 2), output_rate = per_token (3 / 2)\<rparr>)])]"

definition unknown_pricing :: "string \<Rightarrow> string \<Rightarrow> py_float act" where
  "unknown_pricing provider model =
     bind_act
       (logger_warning (''Unknown pricing for '' @ provider @ ''/'' @ model @ '', using default''))
       (\<lambda>_. return (Fin 0))"

definition calculate_llm_cost :: "string \<Rightarrow> string \<Rightarrow> int \<Rightarrow> int \<Rightarrow> py_float act" where
  "calculate_llm_cost provider model input_tokens output_tokens =
     (case map_of pricing provider of
        None \<Rightarrow> unknown_pricing provider model
      | Some models \<Rightarrow>
          (case map_of models model of
             None \<Rightarrow> unknown_pricing provider model
           | Some rates \<Rightarrow>
               bind_act (lift_result (int_mul_float input_tokens (input_rate rates))) (\<lambda>a.
               bind_act (lift_result (int_mul_float output_tokens (output_rate rates))) (\<lambda>b.
               return (float_add a b)))))"

section \<open>The instrumentation wrappers\<close>

text \<open>
  \<^verbatim>\<open>d.get(key, fallback)\<close>: on an optional key of a record, and on a mapping.
\<close>

definition get_or :: "'v option \<Rightarrow> 'v \<Rightarrow> 'v" where
  "get_or v fallback = (case v of None \<Rightarrow> fallback | Some x \<Rightarrow> x)"

definition dict_get :: "('k \<rightharpoonup> 'v) \<Rightarrow> 'k \<Rightarrow> 'v \<Rightarrow> 'v" where
  "dict_get d k fallback = get_or (d k) fallback"

text \<open>
  The result mapping of a ticket-processing operation: the four optional keys the
  wrapper reads; any other key lives in the extension of the record.
\<close>

record ticket_result =
  auto_resolved :: "bool option"
  confidence :: "py_float option"
  escalated :: "bool option"
  escalation_reason :: "string option"

definition confidence_tier :: "py_float \<Rightarrow> string" where
  "confidence_tier c =
     (if float_gt c (float_literal (85 / 100)) then ''high''
      else if float_gt c (float_literal (70 / 100)) then ''medium''
      else ''low'')"

definition track_ticket_processing ::
  "((string \<rightharpoonup> string) \<Rightarrow> (string \<rightharpoonup> string) \<Rightarrow> ('a ticket_result_scheme) act) \<Rightarrow>
   (string \<rightharpoonup> string) \<Rightarrow> (string \<rightharpoonup> string) \<Rightarrow> ('a ticket_result_scheme) act" where
  "track_ticket_processing func ticket kwargs =
     bind_act time_time (\<lambda>start_time.
     (let category = dict_get ticket ''category'' ''general_inquiry'';
          channel = dict_get ticket ''channel'' ''web'';
          environment = dict_get kwargs ''environment'' ''production''
      in try_except_Exception
           (bind_act (func ticket kwargs) (\<lambda>result.
            bind_act time_time (\<lambda>t.
            (let duration_ms = float_mul (float_sub t start_time) (Fin 1000)
             in bind_act (histogram_observe response_duration_milliseconds [] duration_ms) (\<lambda>_.
                bind_act (counter_inc tickets_processed_total
                            [category, environment, channel] (Fin 1)) (\<lambda>_.
                bind_act
                  (if get_or (auto_resolved result) False then
                     (let confidence = get_or (confidence result) (Fin 0);
                          confidence_tier = confidence_tier confidence
                      in counter_inc tickets_resolved_auto_total
                           [category, confidence_tier] (Fin 1))
                   else if get_or (escalated result) False then
                     counter_inc tickets_escalated_total
                       [category, get_or (escalation_reason result) ''unknown''] (Fin 1)
                   else return ()) (\<lambda>_.
                return result)))))))
           (\<lambda>e. bind_act (logger_error (''Error processing ticket: '' @ exc_msg e)) (\<lambda>_.
                 raise e))))"

text \<open>
  The result mapping of an LLM call: the optional \<^verbatim>\<open>usage\<close> sub-mapping with its two
  optional integer counts; any other key lives in the extension of the record.
\<close>

record token_usage =
  input_tokens :: "int option"
  output_tokens :: "int option"

record llm_result =
  usage :: "token_usage option"

definition track_llm_call ::
  "string \<Rightarrow> string \<Rightarrow> ('a llm_result_scheme) act \<Rightarrow> ('a llm_result_scheme) act" where
  "track_llm_call provider model func =
     bind_act time_time (\<lambda>start_time.
     try_except_Exception
       (bind_act func (\<lambda>result.
        bind_act time_time (\<lambda>t.
        (let duration_s = float_sub t start_time
         in bind_act (histogram_observe llm_response_duration_seconds
                        [provider, model] duration_s) (\<lambda>_.
            bind_act
              (case usage result of
                 None \<Rightarrow> return ()
               | Some u \<Rightarrow>
                   (let input_tokens = get_or (input_tokens u) 0;
                        output_tokens = get_or (output_tokens u) 0
                    in bind_act (counter_inc_int llm_tokens_total
                                   [provider, model, ''input''] input_tokens) (\<lambda>_.
                       bind_act (counter_inc_int llm_tokens_total
                                   [provider, model, ''output''] output_tokens) (\<lambda>_.
                       bind_act (calculate_llm_cost provider model
                                   input_tokens output_tokens) (\<lambda>cost.
                       counter_inc llm_api_cost_dollars [provider, model] cost))))) (\<lambda>_.
            bind_act (counter_inc llm_api_requests_total
                        [provider, model, ''success''] (Fin 1)) (\<lambda>_.
            return result)))))))
       (\<lambda>e. bind_act (counter_inc llm_api_requests_total
                         [provider, model, ''error''] (Fin 1)) (\<lambda>_.
             bind_act (counter_inc llm_api_errors_total [provider, exc_type e] (Fin 1)) (\<lambda>_.
             bind_act (logger_error (''LLM API error: '' @ exc_msg e)) (\<lambda>_.
             raise e)))))"

text \<open>\<^verbatim>\<open>str\<close> of an int, which the registry applies to a label value.\<close>

fun str_nat :: "nat \<Rightarrow> string" where
  "str_nat n =
     (if n < 10 then [''0123456789'' ! n] else str_nat (n div 10) @ [''0123456789'' ! (n mod 10)])"

declare str_nat.simps [simp del]

definition py_str_int :: "int \<Rightarrow> string" where
  "py_str_int i = (if i < 0 then CHR ''-'' # str_nat (nat (- i)) else str_nat (nat i))"

text \<open>The request attributes \<^verbatim>\<open>request.method\<close> and \<^verbatim>\<open>request.path\<close>.\<close>

record request =
  http_method :: string
  path :: string

record response =
  status_code :: int

definition track_http_request ::
  "('a request_scheme \<Rightarrow> ('b response_scheme) act) \<Rightarrow>
   'a request_scheme \<Rightarrow> ('b response_scheme) act" where
  "track_http_request func request =
     try_except_Exception
       (bind_act (func request) (\<lambda>response.
        bind_act (counter_inc http_requests_total
                    [http_method request, path request, py_str_int (status_code response)]
                    (Fin 1)) (\<lambda>_.
        return response)))
       (\<lambda>e. bind_act (counter_inc http_requests_total
                         [http_method request, path request, py_str_int 500] (Fin 1)) (\<lambda>_.
             raise e))"

section \<open>The budget and savings refresh\<close>

definition budgets :: "(string \<times> int) list" where
  "budgets =
     [(''llm_api'', 1200), (''aws_infrastructure'', 800), (''vector_db'', 300),
      (''monitoring'', 200)]"

text \<open>The loop over \<^verbatim>\<open>budgets.items()\<close>, in the order the dictionary is written.\<close>

fun set_budgets :: "(string \<times> int) list \<Rightarrow> unit act" where
  "set_budgets [] = return ()"
| "set_budgets ((category, amount) # rest) =
     bind_act (gauge_set cost_budget_monthly [category] (Fin (of_int amount))) (\<lambda>_.
     set_budgets rest)"

definition update_cost_budget_tracking :: "unit act" where
  "update_cost_budget_tracking =
     bind_act (set_budgets budgets) (\<lambda>_.
     (let monthly_operational_cost = 2500 :: int;
          monthly_support_savings = 4000 :: int
      in bind_act (gauge_set support_agent_cost_savings_dollars []
                     (Fin (of_int monthly_support_savings))) (\<lambda>_.
         gauge_set monthly_cost_savings_dollars []
           (Fin (of_int (monthly_support_savings - monthly_operational_cost))))))"

section \<open>Cancelled operations\<close>

text \<open>
  \<^verbatim>\<open>asyncio.CancelledError\<close>, raised in a coroutine that is cancelled while it awaits.
  Since Python 3.8 it derives from \<^verbatim>\<open>BaseException\<close> and not from \<^verbatim>\<open>Exception\<close>; the
  module names Python 3.11 in its deployment info.
\<close>

definition CancelledError :: py_exc where
  "CancelledError = PyExc False ''CancelledError'' []"

text \<open>A ticket-processing operation and a request handler that are cancelled.\<close>

definition cancelled_process_ticket ::
  "(string \<rightharpoonup> string) \<Rightarrow> (string \<rightharpoonup> string) \<Rightarrow> ticket_result act" where
  "cancelled_process_ticket ticket kwargs = raise CancelledError"

definition cancelled_handle_request :: "request \<Rightarrow> response act" where
  "cancelled_handle_request request = raise CancelledError"

section \<open>Sequences of increments\<close>


text \<open>
  The increments of a list that the registry of the spec accepts on the series
  \<open>(c, ls)\<close>: those addressed to it, with the arity of the counter's label names and
  a non-negative amount.
\<close>

definition accepted_on :: "counter \<Rightarrow> string list \<Rightarrow> (counter \<times> string list \<times> rat) list \<Rightarrow> rat list" where
  "accepted_on c ls evs =
     map (\<lambda>(c', ls', a). a)
       (filter (\<lambda>(c', ls', a). c' = c \<and> ls' = ls \<and>
                  length ls' = length (counter_labelnames c') \<and> 0 \<le> a) evs)"

section \<open>Properties of the float model\<close>

lemma floor_log2_lower:
  assumes "0 < x"
  shows "2 powi floor_log2 x \<le> x"
proof (cases "1 \<le> x")
  case True
  define n where "n = \<lfloor>x\<rfloor>"
  have n: "0 < n" using True unfolding n_def by simp
  have b: "1 \<le> bitlen n" using n bitlen_eq_zero_iff [of n] bitlen_nonneg [of n] by linarith
  have "(2::int) ^ nat (bitlen n - 1) \<le> n" using bitlen_bounds [OF n] by simp
  then have "(of_int ((2::int) ^ nat (bitlen n - 1)) :: rat) \<le> of_int n" by (simp only: of_int_le_iff)
  also have "\<dots> \<le> x" unfolding n_def by simp
  finally have "(2::rat) ^ nat (bitlen n - 1) \<le> x" by simp
  moreover have "(2::rat) powi (bitlen n - 1) = 2 ^ nat (bitlen n - 1)"
    using b by (simp add: power_int_nonneg_exp)
  ultimately show ?thesis using True by (simp add: floor_log2_def n_def)
next
  case False
  define m where "m = \<lceil>1 / x\<rceil>"
  have y: "1 < 1 / x" using False assms by simp
  have m: "0 < m - 1" using y unfolding m_def by linarith
  have "m - 1 < 2 ^ nat (bitlen (m - 1))" using bitlen_bounds [OF m] by simp
  then have "m \<le> 2 ^ nat (bitlen (m - 1))" by simp
  then have "(of_int m :: rat) \<le> of_int (2 ^ nat (bitlen (m - 1)))" by (simp only: of_int_le_iff)
  moreover have "1 / x \<le> of_int m" unfolding m_def by simp
  ultimately have "1 / x \<le> of_int (2 ^ nat (bitlen (m - 1)))" by (rule order_trans [rotated])
  then have "1 / x \<le> 2 ^ nat (bitlen (m - 1))" by simp
  then have "1 / 2 ^ nat (bitlen (m - 1)) \<le> x" using assms
    by (simp add: field_simps)
  moreover have "(2::rat) powi (- bitlen (m - 1)) = 1 / 2 ^ nat (bitlen (m - 1))"
    using bitlen_nonneg [of "m - 1"] by (simp add: power_int_minus_divide power_int_nonneg_exp)
  ultimately show ?thesis using False by (simp add: floor_log2_def m_def)
qed

lemma floor_log2_upper:
  assumes "0 < x"
  shows "x < 2 powi (floor_log2 x + 1)"
proof (cases "1 \<le> x")
  case True
  define n where "n = \<lfloor>x\<rfloor>"
  have n: "0 < n" using True unfolding n_def by simp
  have b: "1 \<le> bitlen n" using n bitlen_eq_zero_iff [of n] bitlen_nonneg [of n] by linarith
  have "n < 2 ^ nat (bitlen n)" using bitlen_bounds [OF n] by simp
  then have "n + 1 \<le> 2 ^ nat (bitlen n)" by simp
  then have "(of_int (n + 1) :: rat) \<le> of_int (2 ^ nat (bitlen n))" by (simp only: of_int_le_iff)
  moreover have "x < of_int (n + 1)" unfolding n_def by linarith
  ultimately have "x < 2 ^ nat (bitlen n)" by simp
  moreover have "(2::rat) powi (bitlen n - 1 + 1) = 2 ^ nat (bitlen n)"
    using b by (simp add: power_int_nonneg_exp)
  ultimately show ?thesis using True by (simp add: floor_log2_def n_def)
next
  case False
  define m where "m = \<lceil>1 / x\<rceil>"
  define k where "k = bitlen (m - 1)"
  have y: "1 < 1 / x" using False assms by simp
  have m: "0 < m - 1" using y unfolding m_def by linarith
  have k: "1 \<le> k" using m bitlen_eq_zero_iff [of "m - 1"] bitlen_nonneg [of "m - 1"]
    unfolding k_def by linarith
  have "(2::int) ^ nat (k - 1) \<le> m - 1" using bitlen_bounds [OF m] unfolding k_def by simp
  then have "(of_int (2 ^ nat (k - 1)) :: rat) \<le> of_int (m - 1)" by (simp only: of_int_le_iff)
  moreover have "of_int (m - 1) < 1 / x" unfolding m_def by linarith
  ultimately have "2 ^ nat (k - 1) < 1 / x" by simp
  then have "x < 1 / 2 ^ nat (k - 1)" using assms by (simp add: field_simps)
  moreover have "(2::rat) powi (- k + 1) = 1 / 2 ^ nat (k - 1)"
  proof -
    have "(2::rat) powi (- k + 1) = 2 powi (- (k - 1))" by simp
    also have "\<dots> = 1 / 2 powi (k - 1)" by (rule power_int_minus_divide)
    also have "\<dots> = 1 / 2 ^ nat (k - 1)" using k by (simp add: power_int_nonneg_exp)
    finally show ?thesis .
  qed
  ultimately show ?thesis using False by (simp add: floor_log2_def m_def k_def)
qed

lemma pow2_less_cancel:
  assumes "(2::rat) powi a < 2 powi b"
  shows "a < b"
proof (rule ccontr)
  assume "\<not> a < b"
  then have "b \<le> a" by simp
  then have "(2::rat) powi b \<le> 2 powi a" by (rule power_int_increasing) simp
  with assms show False by simp
qed

lemma floor_log2_unique:
  assumes "0 < x" and "2 powi e \<le> x" and "x < 2 powi (e + 1)"
  shows "floor_log2 x = e"
proof -
  have "(2::rat) powi e < 2 powi (floor_log2 x + 1)"
    using assms(2) floor_log2_upper [OF assms(1)] by linarith
  then have "e < floor_log2 x + 1" by (rule pow2_less_cancel)
  moreover have "(2::rat) powi floor_log2 x < 2 powi (e + 1)"
    using assms(3) floor_log2_lower [OF assms(1)] by linarith
  then have "floor_log2 x < e + 1" by (rule pow2_less_cancel)
  ultimately show ?thesis by linarith
qed


lemma round_half_even_eqI:
  assumes "of_int m - 1 / 2 < x" and "x < of_int m + 1 / 2"
  shows "round_half_even x = m"
proof -
  have "\<lfloor>x\<rfloor> = m \<or> \<lfloor>x\<rfloor> = m - 1" using assms by linarith
  then show ?thesis
  proof
    assume f: "\<lfloor>x\<rfloor> = m"
    then have "x - of_int \<lfloor>x\<rfloor> < 1 / 2" using assms by simp
    then show ?thesis using f by (simp add: round_half_even_def Let_def)
  next
    assume f: "\<lfloor>x\<rfloor> = m - 1"
    then have "1 / 2 < x - of_int \<lfloor>x\<rfloor>" using assms by simp
    then show ?thesis using f by (simp add: round_half_even_def Let_def)
  qed
qed

lemma round_half_even_of_int [simp]: "round_half_even (of_int n) = n"
  by (rule round_half_even_eqI) simp_all

lemma round_half_even_mono:
  assumes "x \<le> y"
  shows "round_half_even x \<le> round_half_even y"
proof -
  have fl: "\<lfloor>x\<rfloor> \<le> \<lfloor>y\<rfloor>" using assms by (rule floor_mono)
  show ?thesis
  proof (cases "\<lfloor>x\<rfloor> = \<lfloor>y\<rfloor>")
    case True
    then have "x - of_int \<lfloor>x\<rfloor> \<le> y - of_int \<lfloor>y\<rfloor>" using assms by simp
    then show ?thesis using True unfolding round_half_even_def Let_def by auto
  next
    case False
    then have "\<lfloor>x\<rfloor> + 1 \<le> \<lfloor>y\<rfloor>" using fl by simp
    moreover have "round_half_even x \<le> \<lfloor>x\<rfloor> + 1"
      unfolding round_half_even_def Let_def by simp
    moreover have "\<lfloor>y\<rfloor> \<le> round_half_even y"
      unfolding round_half_even_def Let_def by simp
    ultimately show ?thesis by linarith
  qed
qed

lemma round_half_even_ge: "of_int n \<le> x \<Longrightarrow> n \<le> round_half_even x"
  using round_half_even_mono [of "of_int n" x] by simp

lemma round_half_even_le: "x \<le> of_int n \<Longrightarrow> round_half_even x \<le> n"
  using round_half_even_mono [of x "of_int n"] by simp

lemma ulp_pos [simp]: "0 < ulp x"
  by (simp add: ulp_def)

lemma ulp_nonneg [simp]: "0 \<le> ulp x"
  by (simp add: ulp_def)

lemma fl_round_0 [simp]: "fl_round 0 = 0"
  by (simp add: fl_round_def)

lemma fl_round_minus: "fl_round (- x) = - fl_round x"
  by (simp add: fl_round_def)

lemma fl_round_pos: "0 < x \<Longrightarrow> fl_round x = of_int (round_half_even (x / ulp x)) * ulp x"
  by (simp add: fl_round_def)

lemma fl_round_nonneg:
  assumes "0 \<le> x"
  shows "0 \<le> fl_round x"
proof (cases "x = 0")
  case False
  then have x: "0 < x" using assms by simp
  have "0 \<le> x / ulp x" using x ulp_pos [of x] by (intro divide_nonneg_pos) simp_all
  then have "of_int 0 \<le> x / ulp x" by simp
  then have "0 \<le> round_half_even (x / ulp x)" by (rule round_half_even_ge)
  then have "0 \<le> of_int (round_half_even (x / ulp x)) * ulp x"
    by (intro mult_nonneg_nonneg) simp_all
  then show ?thesis using x by (simp add: fl_round_pos)
qed simp

lemma ulp_eq:
  assumes "0 < x" and "2 powi e \<le> x" and "x < 2 powi (e + 1)"
  shows "ulp x = 2 powi (max e (- 1022) - 52)"
  using floor_log2_unique [OF assms] by (simp add: ulp_def eff_exp_def)

text \<open>Evaluation rule for a positive input in the normal range.\<close>

lemma fl_round_eval:
  assumes "2 powi e \<le> x" and "x < 2 powi (e + 1)" and "- 1022 \<le> e"
    and "of_int m - 1 / 2 < x / 2 powi (e - 52)" and "x / 2 powi (e - 52) < of_int m + 1 / 2"
  shows "fl_round x = of_int m * 2 powi (e - 52)"
proof -
  have "(0::rat) < 2 powi e" by simp
  then have x: "0 < x" using assms(1) by linarith
  have u: "ulp x = 2 powi (e - 52)" using ulp_eq [OF x assms(1,2)] assms(3) by (simp add: max_def)
  have "round_half_even (x / 2 powi (e - 52)) = m" using assms(4,5) by (rule round_half_even_eqI)
  then show ?thesis using x u by (simp add: fl_round_pos)
qed


lemma pow2_split: "(2::rat) powi (e + 1) = 2 powi 53 * 2 powi (e - 52)"
proof -
  have "(2::rat) powi (53 + (e - 52)) = 2 powi 53 * 2 powi (e - 52)"
    by (rule power_int_add) simp
  then show ?thesis by (simp add: algebra_simps)
qed

lemma pow2_split': "(2::rat) powi e = 2 powi 52 * 2 powi (e - 52)"
proof -
  have "(2::rat) powi (52 + (e - 52)) = 2 powi 52 * 2 powi (e - 52)"
    by (rule power_int_add) simp
  then show ?thesis by (simp add: algebra_simps)
qed

lemma floor_log2_mono:
  assumes "0 < x" and "x \<le> y"
  shows "floor_log2 x \<le> floor_log2 y"
proof -
  have y: "0 < y" using assms by linarith
  have "(2::rat) powi floor_log2 x < 2 powi (floor_log2 y + 1)"
    using floor_log2_lower [OF assms(1)] floor_log2_upper [OF y] assms(2) by linarith
  then have "floor_log2 x < floor_log2 y + 1" by (rule pow2_less_cancel)
  then show ?thesis by simp
qed

lemma eff_exp_mono: "0 < x \<Longrightarrow> x \<le> y \<Longrightarrow> eff_exp x \<le> eff_exp y"
  using floor_log2_mono [of x y] by (simp add: eff_exp_def max_def)

lemma fl_round_le_binade:
  assumes "0 < x"
  shows "fl_round x \<le> 2 powi (eff_exp x + 1)"
proof -
  define u where "u = (2::rat) powi (eff_exp x - 52)"
  have u: "0 < u" by (simp add: u_def)
  have "floor_log2 x + 1 \<le> eff_exp x + 1" by (simp add: eff_exp_def)
  then have "(2::rat) powi (floor_log2 x + 1) \<le> 2 powi (eff_exp x + 1)"
    by (rule power_int_increasing) simp
  then have "x \<le> 2 powi (eff_exp x + 1)" using floor_log2_upper [OF assms] by linarith
  then have "x \<le> 2 powi 53 * u" unfolding u_def by (simp only: pow2_split)
  then have "x / u \<le> 2 powi 53" using u by (simp add: field_simps)
  then have "x / u \<le> of_int (2 ^ 53)" by simp
  then have "round_half_even (x / u) \<le> 2 ^ 53" by (rule round_half_even_le)
  then have "(of_int (round_half_even (x / u)) :: rat) \<le> of_int (2 ^ 53)"
    by (simp only: of_int_le_iff)
  then have "of_int (round_half_even (x / u)) * u \<le> of_int (2 ^ 53) * u"
    using u by (simp only: mult_le_cancel_right_pos)
  also have "of_int (2 ^ 53) * u = 2 powi (eff_exp x + 1)"
    unfolding u_def by (simp add: pow2_split [of "eff_exp x"])
  finally show ?thesis using assms by (simp add: fl_round_pos ulp_def u_def)
qed

lemma fl_round_ge_binade:
  assumes "0 < x" and "- 1022 \<le> floor_log2 x"
  shows "2 powi (eff_exp x) \<le> fl_round x"
proof -
  define u where "u = (2::rat) powi (eff_exp x - 52)"
  have u: "0 < u" by (simp add: u_def)
  have e: "eff_exp x = floor_log2 x" using assms(2) by (simp add: eff_exp_def)
  have "2 powi (eff_exp x) \<le> x" using floor_log2_lower [OF assms(1)] e by simp
  then have "2 powi 52 * u \<le> x" unfolding u_def by (simp only: pow2_split' [symmetric])
  then have "2 powi 52 \<le> x / u" using u by (simp add: field_simps)
  then have "of_int (2 ^ 52) \<le> x / u" by simp
  then have "2 ^ 52 \<le> round_half_even (x / u)" by (rule round_half_even_ge)
  then have "(of_int (2 ^ 52) :: rat) \<le> of_int (round_half_even (x / u))"
    by (simp only: of_int_le_iff)
  then have *: "of_int (2 ^ 52) * u \<le> of_int (round_half_even (x / u)) * u"
    using u by (simp only: mult_le_cancel_right_pos)
  have "2 powi (eff_exp x) = of_int (2 ^ 52) * u"
    unfolding u_def by (simp add: pow2_split' [of "eff_exp x"])
  also note *
  finally show ?thesis using assms(1) by (simp add: fl_round_pos ulp_def u_def)
qed

lemma fl_round_mono_pos:
  assumes "0 < x" and "x \<le> y"
  shows "fl_round x \<le> fl_round y"
proof -
  have y: "0 < y" using assms by linarith
  have le: "eff_exp x \<le> eff_exp y" using assms by (rule eff_exp_mono)
  show ?thesis
  proof (cases "eff_exp x = eff_exp y")
    case True
    define u where "u = (2::rat) powi (eff_exp x - 52)"
    have u: "0 < u" by (simp add: u_def)
    have "x / u \<le> y / u" using assms(2) u by (simp add: divide_right_mono)
    then have "round_half_even (x / u) \<le> round_half_even (y / u)" by (rule round_half_even_mono)
    then have "(of_int (round_half_even (x / u)) :: rat) \<le> of_int (round_half_even (y / u))"
      by (simp only: of_int_le_iff)
    then have "of_int (round_half_even (x / u)) * u \<le> of_int (round_half_even (y / u)) * u"
      using u by (simp only: mult_le_cancel_right_pos)
    then show ?thesis using assms(1) y True by (simp add: fl_round_pos ulp_def u_def)
  next
    case False
    then have lt: "eff_exp x + 1 \<le> eff_exp y" using le by simp
    then have "- 1022 \<le> floor_log2 y" by (simp add: eff_exp_def max_def split: if_splits)
    then have "2 powi (eff_exp y) \<le> fl_round y" using y by (intro fl_round_ge_binade)
    moreover have "(2::rat) powi (eff_exp x + 1) \<le> 2 powi (eff_exp y)"
      using lt by (rule power_int_increasing) simp
    moreover have "fl_round x \<le> 2 powi (eff_exp x + 1)" using assms(1) by (rule fl_round_le_binade)
    ultimately show ?thesis by linarith
  qed
qed

lemma fl_round_mono:
  assumes "x \<le> y"
  shows "fl_round x \<le> fl_round y"
proof -
  consider "0 < x" | "x \<le> 0" "0 \<le> y" | "y < 0" using assms by linarith
  then show ?thesis
  proof cases
    case 1
    then show ?thesis using assms by (rule fl_round_mono_pos)
  next
    case 2
    have "0 \<le> fl_round (- x)" using 2(1) by (intro fl_round_nonneg) simp
    then have "fl_round x \<le> 0" by (simp add: fl_round_minus)
    moreover have "0 \<le> fl_round y" using 2(2) by (rule fl_round_nonneg)
    ultimately show ?thesis by linarith
  next
    case 3
    have "fl_round (- y) \<le> fl_round (- x)" using 3 assms by (intro fl_round_mono_pos) simp_all
    then show ?thesis by (simp add: fl_round_minus)
  qed
qed

lemma max_double_big: "(2::rat) ^ 64 \<le> max_double"
  unfolding max_double_def by simp

lemma max_double_pos: "0 < max_double"
  unfolding max_double_def by simp

lemma fl_round_max_double: "fl_round max_double = max_double"
  using fl_round_eval [of 1023 max_double "2 ^ 53 - 1"] unfolding max_double_def by simp

lemma fl_round_quarter_max: "fl_round (max_double / 4) = max_double / 4"
  using fl_round_eval [of 1021 "max_double / 4" "2 ^ 53 - 1"] unfolding max_double_def by simp

lemma fl_round_quarter: "fl_round (1 / 4) = 1 / 4"
  using fl_round_eval [of "- 2" "1 / 4" "2 ^ 52"] by simp

lemma fl_round_pow1024: "fl_round (2 ^ 1024) = 2 ^ 1024"
  using fl_round_eval [of 1024 "2 ^ 1024" "2 ^ 52"] by simp

lemma fl_round_abs_le:
  assumes "\<bar>x\<bar> \<le> max_double"
  shows "\<bar>fl_round x\<bar> \<le> max_double"
proof -
  have "fl_round x \<le> fl_round max_double" using assms by (intro fl_round_mono) simp
  moreover have "fl_round (- max_double) \<le> fl_round x" using assms by (intro fl_round_mono) simp
  ultimately show ?thesis by (simp add: fl_round_minus fl_round_max_double)
qed

lemma to_double_Fin: "\<bar>fl_round x\<bar> \<le> max_double \<Longrightarrow> to_double x = Fin (fl_round x)"
  by (auto simp: to_double_def Let_def)

lemma to_double_in_range: "\<bar>x\<bar> \<le> max_double \<Longrightarrow> to_double x = Fin (fl_round x)"
  by (intro to_double_Fin fl_round_abs_le)

lemma to_double_small: "\<bar>x\<bar> \<le> 2 ^ 64 \<Longrightarrow> to_double x = Fin (fl_round x)"
  using max_double_big by (intro to_double_in_range) linarith

text \<open>Below the midpoint between the largest float and \<open>2 ^ 1024\<close>, rounding stays finite.\<close>

lemma fl_round_below_threshold:
  assumes "0 \<le> x" and "x < 2 ^ 1024 - 2 ^ 970"
  shows "fl_round x \<le> max_double"
proof (cases "x \<le> max_double")
  case True
  then have "fl_round x \<le> fl_round max_double" by (rule fl_round_mono)
  then show ?thesis by (simp add: fl_round_max_double)
next
  case False
  then have lo: "(2 ^ 53 - 1) * 2 ^ 971 < x" by (simp add: max_double_def)
  have "fl_round x = of_int (2 ^ 53 - 1) * 2 powi (1023 - 52)"
  proof (rule fl_round_eval)
    show "2 powi 1023 \<le> x" using lo by simp
    show "x < 2 powi (1023 + 1)" using assms(2) by simp
    show "- 1022 \<le> (1023::int)" by simp
    show "of_int (2 ^ 53 - 1) - 1 / 2 < x / 2 powi (1023 - 52)"
      using lo by (simp add: field_simps)
    show "x / 2 powi (1023 - 52) < of_int (2 ^ 53 - 1) + 1 / 2"
      using assms(2) by (simp add: field_simps)
  qed
  then show ?thesis by (simp add: max_double_def)
qed

lemma int_to_float_ok:
  assumes "0 \<le> i" and "i < 2 ^ 1024 - 2 ^ 970"
  shows "\<exists>r. int_to_float i = Inr (Fin r) \<and> 0 \<le> r \<and> r \<le> max_double"
proof -
  have "(of_int i :: rat) < of_int (2 ^ 1024 - 2 ^ 970)" using assms(2) by (simp only: of_int_less_iff)
  then have lt: "(of_int i :: rat) < 2 ^ 1024 - 2 ^ 970" by simp
  have nn: "(0::rat) \<le> of_int i" using assms(1) by simp
  have up: "fl_round (of_int i) \<le> max_double" using nn lt by (rule fl_round_below_threshold)
  have lo: "0 \<le> fl_round (of_int i)" using nn by (rule fl_round_nonneg)
  then have "to_double (of_int i) = Fin (fl_round (of_int i))" using up by (intro to_double_Fin) simp
  then show ?thesis using up lo by (simp add: int_to_float_def)
qed

lemma int_to_float_overflow: "int_to_float (2 ^ 1024) = Inl OverflowError"
proof -
  have "max_double < fl_round (2 ^ 1024)" using fl_round_pow1024 by (simp add: max_double_def)
  then have "to_double (2 ^ 1024) = PInf" by (simp add: to_double_def Let_def)
  then show ?thesis by (simp add: int_to_float_def)
qed

lemma per_token_bounds:
  assumes "0 \<le> x" and "x \<le> 250000"
  shows "\<exists>r. per_token x = Fin r \<and> 0 \<le> r \<and> r \<le> 1 / 4"
proof -
  have "x / 1000000 \<le> 1 / 4" using assms(2) by simp
  then have "fl_round (x / 1000000) \<le> fl_round (1 / 4)" by (rule fl_round_mono)
  then have up: "fl_round (x / 1000000) \<le> 1 / 4" by (simp add: fl_round_quarter)
  have lo: "0 \<le> fl_round (x / 1000000)" using assms(1) by (intro fl_round_nonneg) simp
  have "\<bar>fl_round (x / 1000000)\<bar> \<le> max_double" using up lo max_double_big by simp
  then have "per_token x = Fin (fl_round (x / 1000000))" unfolding per_token_def by (rule to_double_Fin)
  then show ?thesis using up lo by simp
qed

lemma float_mul_bounds:
  assumes "0 \<le> a" and "a \<le> max_double" and "0 \<le> r" and "r \<le> 1 / 4"
  shows "\<exists>p. float_mul (Fin a) (Fin r) = Fin p \<and> 0 \<le> p \<and> p \<le> max_double / 4"
proof -
  have "a * r \<le> max_double * (1 / 4)" using assms by (intro mult_mono) simp_all
  then have "fl_round (a * r) \<le> fl_round (max_double / 4)" by (intro fl_round_mono) simp
  then have up: "fl_round (a * r) \<le> max_double / 4" by (simp add: fl_round_quarter_max)
  have lo: "0 \<le> fl_round (a * r)" using assms by (intro fl_round_nonneg) simp
  have "\<bar>fl_round (a * r)\<bar> \<le> max_double" using up lo max_double_pos by simp
  then have "to_double (a * r) = Fin (fl_round (a * r))" by (rule to_double_Fin)
  then show ?thesis using up lo by simp
qed

lemma float_add_bounds:
  assumes "0 \<le> a" and "a \<le> max_double / 4" and "0 \<le> b" and "b \<le> max_double / 4"
  shows "\<exists>s. float_add (Fin a) (Fin b) = Fin s \<and> 0 \<le> s"
proof -
  have "\<bar>a + b\<bar> \<le> max_double" using assms max_double_pos by simp
  then have "to_double (a + b) = Fin (fl_round (a + b))" by (rule to_double_in_range)
  moreover have "0 \<le> fl_round (a + b)" using assms by (intro fl_round_nonneg) simp
  ultimately show ?thesis by simp
qed


lemma round_half_even_tie:
  assumes "even m"
  shows "round_half_even (of_int m + 1 / 2) = m"
proof -
  have "\<lfloor>of_int m + (1 / 2 :: rat)\<rfloor> = m" by linarith
  then show ?thesis using assms by (simp add: round_half_even_def Let_def)
qed

lemma fl_round_eval_tie:
  assumes "2 powi e \<le> x" and "x < 2 powi (e + 1)" and "- 1022 \<le> e"
    and "x / 2 powi (e - 52) = of_int m + 1 / 2" and "even m"
  shows "fl_round x = of_int m * 2 powi (e - 52)"
proof -
  have "(0::rat) < 2 powi e" by simp
  then have x: "0 < x" using assms(1) by linarith
  have u: "ulp x = 2 powi (e - 52)" using ulp_eq [OF x assms(1,2)] assms(3) by (simp add: max_def)
  have "round_half_even (x / 2 powi (e - 52)) = m"
    unfolding assms(4) using assms(5) by (rule round_half_even_tie)
  then show ?thesis using x u by (simp add: fl_round_pos)
qed

lemma int_to_float_2_53_plus_1: "int_to_float (2 ^ 53 + 1) = Inr (Fin (2 ^ 53))"
  using fl_round_eval_tie [of 53 "2 ^ 53 + 1" "2 ^ 52"] to_double_small [of "2 ^ 53 + 1"]
  by (simp add: int_to_float_def)

text \<open>Every integer up to \<open>2 ^ 53\<close> is a float.\<close>

lemma fl_round_int_exact:
  assumes "0 \<le> n" and "n \<le> 2 ^ 53"
  shows "fl_round (of_int n) = of_int n"
proof (cases "n = 0")
  case True
  then show ?thesis by simp
next
  case False
  define x :: rat where "x = of_int n"
  define e where "e = floor_log2 x"
  have x1: "1 \<le> x" using assms(1) False by (simp add: x_def)
  then have x: "0 < x" by linarith
  have lo: "2 powi e \<le> x" unfolding e_def using x by (rule floor_log2_lower)
  have up: "x < 2 powi (e + 1)" unfolding e_def using x by (rule floor_log2_upper)
  have "(2::rat) powi 0 < 2 powi (e + 1)" using x1 up by simp
  then have "0 < e + 1" by (rule pow2_less_cancel)
  then have e0: "0 \<le> e" by simp
  have "(of_int n :: rat) \<le> of_int (2 ^ 53)" using assms(2) by (simp only: of_int_le_iff)
  then have x53: "x \<le> 2 ^ 53" by (simp add: x_def)
  have u: "ulp x = 2 powi (e - 52)" using ulp_eq [OF x lo up] e0 by (simp add: max_def)
  show ?thesis
  proof (cases "e \<le> 52")
    case True
    define k where "k = nat (52 - e)"
    have "(2::rat) powi (e - 52) = 2 powi (- (52 - e))" by simp
    also have "\<dots> = 1 / 2 powi (52 - e)" by (rule power_int_minus_divide)
    also have "\<dots> = 1 / 2 ^ k" using True by (simp add: power_int_nonneg_exp k_def)
    finally have p: "(2::rat) powi (e - 52) = 1 / 2 ^ k" .
    have "x / ulp x = x * 2 ^ k" by (simp add: u p)
    also have "\<dots> = of_int (n * 2 ^ k)" by (simp add: x_def)
    finally have q: "x / ulp x = of_int (n * 2 ^ k)" .
    have r: "round_half_even (x / ulp x) = n * 2 ^ k"
      unfolding q by (rule round_half_even_of_int)
    have "fl_round x = of_int (round_half_even (x / ulp x)) * ulp x" using x by (rule fl_round_pos)
    also have "\<dots> = of_int (n * 2 ^ k) * ulp x" by (simp only: r)
    also have "\<dots> = of_int (n * 2 ^ k) * (1 / 2 ^ k)" by (simp only: u p)
    also have "\<dots> = x" by (simp add: x_def)
    finally show ?thesis by (simp add: x_def)
  next
    case False
    then have "53 \<le> e" by simp
    then have "(2::rat) powi 53 \<le> 2 powi e" by (rule power_int_increasing) simp
    then have "2 ^ 53 \<le> x" using lo by simp
    then have x_eq: "x = 2 ^ 53" using x53 by simp
    have "fl_round (2 ^ 53 :: rat) = 2 ^ 53"
      using fl_round_eval [of 53 "2 ^ 53" "2 ^ 52"] by simp
    then show ?thesis using x_eq by (simp add: x_def)
  qed
qed

lemma int_to_float_exact:
  assumes "0 \<le> n" and "n \<le> 2 ^ 53"
  shows "int_to_float n = Inr (Fin (of_int n))"
proof -
  have "(of_int n :: rat) \<le> of_int (2 ^ 53)" using assms(2) by (simp only: of_int_le_iff)
  then have "\<bar>of_int n :: rat\<bar> \<le> 2 ^ 64" using assms(1) by simp
  then have "to_double (of_int n) = Fin (fl_round (of_int n))" by (rule to_double_small)
  then show ?thesis using fl_round_int_exact [OF assms] by (simp add: int_to_float_def)
qed

subsection \<open>Values of the cost model\<close>

lemma per_token_3: "per_token 3 = Fin (1770887431076117 / 590295810358705651712)"
  using fl_round_eval [of "- 19" "3 / 1000000" 7083549724304468] to_double_small [of "3 / 1000000"]
  by (simp add: per_token_def)

lemma per_token_15: "per_token 15 = Fin (8854437155380585 / 590295810358705651712)"
  using fl_round_eval [of "- 17" "15 / 1000000" 8854437155380585] to_double_small [of "15 / 1000000"]
  by (simp add: per_token_def)

lemma to_double_0 [simp]: "to_double 0 = Fin 0"
  using max_double_pos by (simp add: to_double_def)

lemma to_double_3: "to_double 3 = Fin 3"
  using fl_round_eval [of 1 3 "3 * 2 ^ 51"] to_double_small [of 3] by simp

lemma to_double_15: "to_double 15 = Fin 15"
  using fl_round_eval [of 3 15 "15 * 2 ^ 49"] to_double_small [of 15] by simp

lemma int_to_float_0: "int_to_float 0 = Inr (Fin 0)"
  by (simp add: int_to_float_def)

lemma int_to_float_million: "int_to_float 1000000 = Inr (Fin 1000000)"
  using fl_round_eval [of 19 1000000 "1000000 * 2 ^ 33"] to_double_small [of 1000000]
  by (simp add: int_to_float_def)

lemma million_times_3: "to_double (27670116110564328125 / 9223372036854775808) = Fin 3"
  using fl_round_eval [of 1 "27670116110564328125 / 9223372036854775808" "3 * 2 ^ 51"]
    to_double_small [of "27670116110564328125 / 9223372036854775808"]
  by simp

lemma million_times_15: "to_double (138350580552821640625 / 9223372036854775808) = Fin 15"
  using fl_round_eval [of 3 "138350580552821640625 / 9223372036854775808" "15 * 2 ^ 49"]
    to_double_small [of "138350580552821640625 / 9223372036854775808"]
  by simp

lemma calculate_llm_cost_sonnet:
  "calculate_llm_cost ''anthropic'' ''claude-sonnet-4'' i j w =
     (case int_mul_float i (per_token 3) of
        Inl e \<Rightarrow> (Inl e, w)
      | Inr a \<Rightarrow>
          (case int_mul_float j (per_token 15) of
             Inl e \<Rightarrow> (Inl e, w)
           | Inr b \<Rightarrow> (Inr (float_add a b), w)))"
  by (simp add: calculate_llm_cost_def pricing_def bind_act_def lift_result_def return_def
      split: sum.splits)

lemma cost_input_million:
  "calculate_llm_cost ''anthropic'' ''claude-sonnet-4'' 1000000 0 w = (Inr (Fin 3), w)"
  by (simp add: calculate_llm_cost_sonnet int_mul_float_def int_to_float_0 int_to_float_million
      per_token_3 per_token_15 million_times_3 to_double_3)

lemma cost_output_million:
  "calculate_llm_cost ''anthropic'' ''claude-sonnet-4'' 0 1000000 w = (Inr (Fin 15), w)"
  by (simp add: calculate_llm_cost_sonnet int_mul_float_def int_to_float_0 int_to_float_million
      per_token_3 per_token_15 million_times_15 to_double_15)

lemma unknown_pricing_eq:
  "unknown_pricing provider model w =
     (Inr (Fin 0),
      w\<lparr>logger := logger w @
         [(WARNING, ''Unknown pricing for '' @ provider @ ''/'' @ model @ '', using default'')]\<rparr>)"
  by (simp add: unknown_pricing_def bind_act_def logger_warning_def return_def)

lemma cost_unpriced:
  assumes "(provider, model) \<notin>
     {(''anthropic'', ''claude-sonnet-4''), (''anthropic'', ''claude-haiku''),
      (''openai'', ''gpt-4''), (''openai'', ''gpt-3.5-turbo'')}"
  shows "calculate_llm_cost provider model i j w = unknown_pricing provider model w"
  using assms by (auto simp: calculate_llm_cost_def pricing_def)


section \<open>The cost model: exact values\<close>

text \<open>
  C1: the cost model returns exact dollar values for priced models and zero for unknown
  ones. In binary64 arithmetic, with the rates divided by one million beforehand, one
  million input tokens of \<^verbatim>\<open>claude-sonnet-4\<close> cost exactly 3.0 and one million output
  tokens exactly 15.0; for every (provider, model) pair that is not one of the four
  entries of the price table, such as \<^verbatim>\<open>("unknown-provider", "x")\<close>, the function
  returns 0.0 and does not raise, whatever the token counts and the world it runs in.
\<close>

theorem calculate_llm_cost_exact:
  "fst (calculate_llm_cost ''anthropic'' ''claude-sonnet-4'' 1000000 0 w) = Inr (Fin 3) \<and>
   fst (calculate_llm_cost ''anthropic'' ''claude-sonnet-4'' 0 1000000 w) = Inr (Fin 15) \<and>
   fst (calculate_llm_cost ''unknown-provider'' ''x'' 100 100 w) = Inr (Fin 0) \<and>
   ((provider, model) \<notin>
      {(''anthropic'', ''claude-sonnet-4''), (''anthropic'', ''claude-haiku''),
       (''openai'', ''gpt-4''), (''openai'', ''gpt-3.5-turbo'')} \<longrightarrow>
    fst (calculate_llm_cost provider model i j w) = Inr (Fin 0))"
  by (simp add: cost_input_million cost_output_million cost_unpriced unknown_pricing_eq)

theorem calculate_llm_cost_exact_witness:
  "(''mistral'', ''large'') \<notin>
      {(''anthropic'', ''claude-sonnet-4''), (''anthropic'', ''claude-haiku''),
       (''openai'', ''gpt-4''), (''openai'', ''gpt-3.5-turbo'')} \<and>
   fst (calculate_llm_cost ''mistral'' ''large'' 7 9 initial_world) = Inr (Fin 0)"
  using calculate_llm_cost_exact
    [where provider = "''mistral''" and model = "''large''" and i = 7 and j = 9
       and w = initial_world]
  by simp

subsection \<open>The cost is never negative\<close>

lemma pricing_lookup:
  assumes "map_of pricing provider = Some models" and "map_of models model = Some rs"
  shows "\<exists>x y. input_rate rs = per_token x \<and> output_rate rs = per_token y \<and>
           0 \<le> x \<and> x \<le> 250000 \<and> 0 \<le> y \<and> y \<le> 250000"
proof -
  have "rs = \<lparr>input_rate = per_token 3, output_rate = per_token 15\<rparr> \<or>
        rs = \<lparr>input_rate = per_token (1 / 4), output_rate = per_token (5 / 4)\<rparr> \<or>
        rs = \<lparr>input_rate = per_token 30, output_rate = per_token 60\<rparr> \<or>
        rs = \<lparr>input_rate = per_token (1 / 2), output_rate = per_token (3 / 2)\<rparr>"
    using assms by (auto simp: pricing_def split: if_splits)
  then show ?thesis
  proof (elim disjE)
    assume "rs = \<lparr>input_rate = per_token 3, output_rate = per_token 15\<rparr>"
    then show ?thesis by (intro exI [of _ 3] exI [of _ 15]) simp
  next
    assume "rs = \<lparr>input_rate = per_token (1 / 4), output_rate = per_token (5 / 4)\<rparr>"
    then show ?thesis by (intro exI [of _ "1 / 4"] exI [of _ "5 / 4"]) simp
  next
    assume "rs = \<lparr>input_rate = per_token 30, output_rate = per_token 60\<rparr>"
    then show ?thesis by (intro exI [of _ 30] exI [of _ 60]) simp
  next
    assume "rs = \<lparr>input_rate = per_token (1 / 2), output_rate = per_token (3 / 2)\<rparr>"
    then show ?thesis by (intro exI [of _ "1 / 2"] exI [of _ "3 / 2"]) simp
  qed
qed

lemma int_mul_float_bounds:
  assumes "0 \<le> i" and "i < 2 ^ 1024 - 2 ^ 970" and "0 \<le> x" and "x \<le> 250000"
  shows "\<exists>p. int_mul_float i (per_token x) = Inr (Fin p) \<and> 0 \<le> p \<and> p \<le> max_double / 4"
proof -
  obtain a where a: "int_to_float i = Inr (Fin a)" "0 \<le> a" "a \<le> max_double"
    using int_to_float_ok [OF assms(1,2)] by blast
  obtain r where r: "per_token x = Fin r" "0 \<le> r" "r \<le> 1 / 4"
    using per_token_bounds [OF assms(3,4)] by blast
  obtain p where "float_mul (Fin a) (Fin r) = Fin p" "0 \<le> p" "p \<le> max_double / 4"
    using float_mul_bounds [OF a(2,3) r(2,3)] by blast
  then show ?thesis using a(1) r(1) by (simp add: int_mul_float_def)
qed

lemma calculate_llm_cost_priced:
  assumes "map_of pricing provider = Some models" and "map_of models model = Some rs"
  shows "calculate_llm_cost provider model i j w =
     (case int_mul_float i (input_rate rs) of
        Inl e \<Rightarrow> (Inl e, w)
      | Inr a \<Rightarrow>
          (case int_mul_float j (output_rate rs) of
             Inl e \<Rightarrow> (Inl e, w)
           | Inr b \<Rightarrow> (Inr (float_add a b), w)))"
  using assms
  by (simp add: calculate_llm_cost_def bind_act_def lift_result_def return_def split: sum.splits)

lemma calculate_llm_cost_nonneg:
  assumes "0 \<le> i" and "i < 2 ^ 1024 - 2 ^ 970" and "0 \<le> j" and "j < 2 ^ 1024 - 2 ^ 970"
  shows "\<exists>c. fst (calculate_llm_cost provider model i j w) = Inr (Fin c) \<and> 0 \<le> c"
proof (cases "map_of pricing provider")
  case None
  then show ?thesis by (simp add: calculate_llm_cost_def unknown_pricing_eq)
next
  case (Some models)
  show ?thesis
  proof (cases "map_of models model")
    case None
    then show ?thesis using Some by (simp add: calculate_llm_cost_def unknown_pricing_eq)
  next
    case rs: (Some rs)
    obtain x y where xy: "input_rate rs = per_token x" "output_rate rs = per_token y"
        "0 \<le> x" "x \<le> 250000" "0 \<le> y" "y \<le> 250000"
      using pricing_lookup [OF Some rs] by blast
    obtain a where a: "int_mul_float i (per_token x) = Inr (Fin a)" "0 \<le> a" "a \<le> max_double / 4"
      using int_mul_float_bounds [OF assms(1,2) xy(3,4)] by blast
    obtain b where b: "int_mul_float j (per_token y) = Inr (Fin b)" "0 \<le> b" "b \<le> max_double / 4"
      using int_mul_float_bounds [OF assms(3,4) xy(5,6)] by blast
    obtain s where "float_add (Fin a) (Fin b) = Fin s" "0 \<le> s"
      using float_add_bounds [OF a(2,3) b(2,3)] by blast
    then show ?thesis
      using a(1) b(1) xy(1,2) by (simp add: calculate_llm_cost_priced [OF Some rs])
  qed
qed

lemma cost_overflow:
  "calculate_llm_cost ''anthropic'' ''claude-sonnet-4'' (2 ^ 1024) 0 w = (Inl OverflowError, w)"
  using int_to_float_overflow by (simp add: calculate_llm_cost_sonnet int_mul_float_def)


lemma int_to_float_cases:
  assumes "0 \<le> i"
  shows "int_to_float i = Inl OverflowError \<or>
         (\<exists>a. int_to_float i = Inr (Fin a) \<and> 0 \<le> a \<and> a \<le> max_double)"
proof -
  have "0 \<le> fl_round (of_int i)" using assms by (intro fl_round_nonneg) simp
  then show ?thesis by (simp add: int_to_float_def to_double_def Let_def)
qed

lemma int_mul_float_cases:
  assumes "0 \<le> i" and "0 \<le> x" and "x \<le> 250000"
  shows "int_mul_float i (per_token x) = Inl OverflowError \<or>
         (\<exists>p. int_mul_float i (per_token x) = Inr (Fin p) \<and> 0 \<le> p \<and> p \<le> max_double / 4)"
  using int_to_float_cases [OF assms(1)]
proof
  assume "int_to_float i = Inl OverflowError"
  then show ?thesis by (simp add: int_mul_float_def)
next
  assume "\<exists>a. int_to_float i = Inr (Fin a) \<and> 0 \<le> a \<and> a \<le> max_double"
  then obtain a where a: "int_to_float i = Inr (Fin a)" "0 \<le> a" "a \<le> max_double" by blast
  obtain r where r: "per_token x = Fin r" "0 \<le> r" "r \<le> 1 / 4"
    using per_token_bounds [OF assms(2,3)] by blast
  obtain p where "float_mul (Fin a) (Fin r) = Fin p" "0 \<le> p" "p \<le> max_double / 4"
    using float_mul_bounds [OF a(2,3) r(2,3)] by blast
  then show ?thesis using a(1) r(1) by (simp add: int_mul_float_def)
qed

lemma calculate_llm_cost_cases:
  assumes "0 \<le> i" and "0 \<le> j"
  shows "fst (calculate_llm_cost provider model i j w) = Inl OverflowError \<or>
         (\<exists>c. fst (calculate_llm_cost provider model i j w) = Inr (Fin c) \<and> 0 \<le> c)"
proof (cases "map_of pricing provider")
  case None
  then show ?thesis by (simp add: calculate_llm_cost_def unknown_pricing_eq)
next
  case (Some models)
  show ?thesis
  proof (cases "map_of models model")
    case None
    then show ?thesis using Some by (simp add: calculate_llm_cost_def unknown_pricing_eq)
  next
    case rs: (Some rs)
    obtain x y where xy: "input_rate rs = per_token x" "output_rate rs = per_token y"
        "0 \<le> x" "x \<le> 250000" "0 \<le> y" "y \<le> 250000"
      using pricing_lookup [OF Some rs] by blast
    note eq = calculate_llm_cost_priced [OF Some rs, of i j w]
    show ?thesis
      using int_mul_float_cases [OF assms(1) xy(3,4)]
    proof
      assume "int_mul_float i (per_token x) = Inl OverflowError"
      then show ?thesis using xy(1) by (simp add: eq)
    next
      assume "\<exists>p. int_mul_float i (per_token x) = Inr (Fin p) \<and> 0 \<le> p \<and> p \<le> max_double / 4"
      then obtain a where a: "int_mul_float i (per_token x) = Inr (Fin a)" "0 \<le> a"
          "a \<le> max_double / 4" by blast
      show ?thesis
        using int_mul_float_cases [OF assms(2) xy(5,6)]
      proof
        assume "int_mul_float j (per_token y) = Inl OverflowError"
        then show ?thesis using a(1) xy(1,2) by (simp add: eq)
      next
        assume "\<exists>p. int_mul_float j (per_token y) = Inr (Fin p) \<and> 0 \<le> p \<and> p \<le> max_double / 4"
        then obtain b where b: "int_mul_float j (per_token y) = Inr (Fin b)" "0 \<le> b"
            "b \<le> max_double / 4" by blast
        obtain s where "float_add (Fin a) (Fin b) = Fin s" "0 \<le> s"
          using float_add_bounds [OF a(2,3) b(2,3)] by blast
        then show ?thesis using a(1) b(1) xy(1,2) by (simp add: eq)
      qed
    qed
  qed
qed

lemma bind_act_fst_Inl:
  "fst (m w) = Inl e \<Longrightarrow> fst (bind_act m k w) = Inl e"
  by (cases "m w") (simp add: bind_act_def)

lemma bind_act_fst_Inr:
  "fst (m w) = Inr v \<Longrightarrow> bind_act m k w = k v (snd (m w))"
  by (cases "m w") (simp add: bind_act_def)

lemma counter_inc_cost_ok:
  "0 \<le> c \<Longrightarrow> fst (counter_inc llm_api_cost_dollars [provider, model] (Fin c) w) = Inr ()"
  by (simp add: counter_inc_def)

section \<open>The cost increment is never negative\<close>

text \<open>
  C10 (amended): for every provider string, model string and non-negative integer token
  counts below \<open>2 ^ 1024 - 2 ^ 970\<close> (the integers Python converts to a float),
  \<open>calculate_llm_cost\<close> returns a finite value greater than or equal to 0.0, and the
  cost-counter increment of the LLM-call wrapper is accepted. For all non-negative token
  counts, also larger ones, computing the cost and incrementing the cost counter never
  raises the counter's negative-increment error.
\<close>

theorem cost_increment_never_negative:
  assumes "0 \<le> i" and "0 \<le> j"
  shows "(i < 2 ^ 1024 - 2 ^ 970 \<and> j < 2 ^ 1024 - 2 ^ 970 \<longrightarrow>
           (\<exists>c. fst (calculate_llm_cost provider model i j w) = Inr (Fin c) \<and> 0 \<le> c) \<and>
           fst (bind_act (calculate_llm_cost provider model i j)
                  (counter_inc llm_api_cost_dollars [provider, model]) w) = Inr ()) \<and>
         fst (bind_act (calculate_llm_cost provider model i j)
                (counter_inc llm_api_cost_dollars [provider, model]) w) \<noteq> Inl InvalidValue"
proof (intro conjI impI)
  assume "i < 2 ^ 1024 - 2 ^ 970 \<and> j < 2 ^ 1024 - 2 ^ 970"
  then obtain c where c: "fst (calculate_llm_cost provider model i j w) = Inr (Fin c)" "0 \<le> c"
    using calculate_llm_cost_nonneg [OF assms(1) _ assms(2)] by blast
  show "\<exists>c. fst (calculate_llm_cost provider model i j w) = Inr (Fin c) \<and> 0 \<le> c"
    using c by blast
  show "fst (bind_act (calculate_llm_cost provider model i j)
          (counter_inc llm_api_cost_dollars [provider, model]) w) = Inr ()"
    using c(2)
      by (simp add: bind_act_fst_Inr [where m = "calculate_llm_cost provider model i j", OF c(1)]
          counter_inc_cost_ok)
next
  show "fst (bind_act (calculate_llm_cost provider model i j)
          (counter_inc llm_api_cost_dollars [provider, model]) w) \<noteq> Inl InvalidValue"
    using calculate_llm_cost_cases [OF assms, of provider model w]
  proof
    assume "fst (calculate_llm_cost provider model i j w) = Inl OverflowError"
    then show ?thesis by (simp add: bind_act_fst_Inl OverflowError_def InvalidValue_def)
  next
    assume "\<exists>c. fst (calculate_llm_cost provider model i j w) = Inr (Fin c) \<and> 0 \<le> c"
    then obtain c where c: "fst (calculate_llm_cost provider model i j w) = Inr (Fin c)" "0 \<le> c"
      by blast
    show ?thesis using c(2)
      by (simp add: bind_act_fst_Inr [where m = "calculate_llm_cost provider model i j", OF c(1)]
          counter_inc_cost_ok)
  qed
qed

theorem cost_increment_never_negative_witness:
  "(0::int) \<le> 150 \<and> (0::int) \<le> 300 \<and>
   (150::int) < 2 ^ 1024 - 2 ^ 970 \<and> (300::int) < 2 ^ 1024 - 2 ^ 970 \<and>
   (\<exists>c. fst (calculate_llm_cost ''anthropic'' ''claude-sonnet-4'' 150 300 initial_world) =
          Inr (Fin c) \<and> 0 \<le> c) \<and>
   fst (bind_act (calculate_llm_cost ''anthropic'' ''claude-sonnet-4'' 150 300)
          (counter_inc llm_api_cost_dollars [''anthropic'', ''claude-sonnet-4''])
          initial_world) = Inr ()"
  using cost_increment_never_negative
    [of 150 300 "''anthropic''" "''claude-sonnet-4''" initial_world]
  by simp

text \<open>
  C10 as stated fails: a token count of \<open>2 ^ 1024\<close> is a non-negative integer, and on a
  priced model the function raises \<^verbatim>\<open>OverflowError\<close> instead of returning a value.
\<close>

theorem cost_huge_count_counterexample:
  "fst (calculate_llm_cost ''anthropic'' ''claude-sonnet-4'' (2 ^ 1024) 0 initial_world) =
     Inl OverflowError"
  using cost_overflow [of initial_world] by simp

section \<open>Properties of the registry\<close>

lemma counter_value_add_to_counter:
  "counter_value (add_to_counter c ls a r) c' ls' =
     (if c' = c \<and> ls' = ls then num_add (counter_value r c ls) a else counter_value r c' ls')"
  by (simp add: counter_value_def add_to_counter_def)

lemma counter_value_add_observation [simp]:
  "counter_value (add_observation h ls v r) c' ls' = counter_value r c' ls'"
  by (simp add: counter_value_def add_observation_def)

lemma counter_values_add_to_counter_other:
  "c' \<noteq> c \<Longrightarrow> counter_values (add_to_counter c ls a r) c' = counter_values r c'"
  by (simp add: add_to_counter_def)

lemma counter_values_add_observation [simp]:
  "counter_values (add_observation h ls v r) = counter_values r"
  by (simp add: add_observation_def)

lemma histogram_obs_add_to_counter [simp]:
  "histogram_obs (add_to_counter c ls a r) = histogram_obs r"
  by (simp add: add_to_counter_def)

lemma counter_value_initial: "counter_value (REGISTRY initial_world) c ls = Fin 0"
  by (simp add: counter_value_def initial_world_def initial_registry_def)

section \<open>The ticket-processing wrapper\<close>

lemma track_ticket_processing_success:
  assumes "func ticket kwargs w = (Inr result, w1)"
  shows "track_ticket_processing func ticket kwargs w =
     (Inr result,
      w1\<lparr>REGISTRY :=
        (if get_or (auto_resolved result) False then
           add_to_counter tickets_resolved_auto_total
             [dict_get ticket ''category'' ''general_inquiry'',
              confidence_tier (get_or (confidence result) (Fin 0))] (Fin 1)
         else if get_or (escalated result) False then
           add_to_counter tickets_escalated_total
             [dict_get ticket ''category'' ''general_inquiry'',
              get_or (escalation_reason result) ''unknown''] (Fin 1)
         else (\<lambda>r. r))
          (add_to_counter tickets_processed_total
             [dict_get ticket ''category'' ''general_inquiry'',
              dict_get kwargs ''environment'' ''production'',
              dict_get ticket ''channel'' ''web''] (Fin 1)
             (add_observation response_duration_milliseconds []
                (float_mul (float_sub (Fin (clock w1)) (Fin (clock w))) (Fin 1000))
                (REGISTRY w1)))\<rparr>)"
  using assms
  by (simp add: track_ticket_processing_def bind_act_def time_time_def try_except_Exception_def
      histogram_observe_def counter_inc_def return_def Let_def)

lemma track_ticket_processing_failure:
  assumes "func ticket kwargs w = (Inl e, w1)"
  shows "track_ticket_processing func ticket kwargs w =
     (Inl e,
      if is_Exception e
      then w1\<lparr>logger := logger w1 @ [(ERROR, ''Error processing ticket: '' @ exc_msg e)]\<rparr>
      else w1)"
  using assms
  by (simp add: track_ticket_processing_def bind_act_def time_time_def try_except_Exception_def
      logger_error_def raise_def Let_def)


subsection \<open>Confidence tiers\<close>

lemma fl_round_85: "fl_round (85 / 100) = 7656119366529843 / 9007199254740992"
  using fl_round_eval [of "- 1" "85 / 100" 7656119366529843] by simp

lemma fl_round_86: "fl_round (86 / 100) = 7746191359077253 / 9007199254740992"
  using fl_round_eval [of "- 1" "86 / 100" 7746191359077253] by simp

lemma fl_round_70: "fl_round (70 / 100) = 6305039478318694 / 9007199254740992"
  using fl_round_eval [of "- 1" "70 / 100" 6305039478318694] by simp

lemma float_literal_85: "float_literal (17 / 20) = Fin (7656119366529843 / 9007199254740992)"
  using to_double_small [of "85 / 100"] fl_round_85 by (simp add: float_literal_def)

lemma float_literal_86: "float_literal (43 / 50) = Fin (7746191359077253 / 9007199254740992)"
  using to_double_small [of "86 / 100"] fl_round_86 by (simp add: float_literal_def)

lemma float_literal_70: "float_literal (7 / 10) = Fin (6305039478318694 / 9007199254740992)"
  using to_double_small [of "70 / 100"] fl_round_70 by (simp add: float_literal_def)

text \<open>
  No float lies strictly between a literal and the decimal fraction it is written as,
  when the literal rounds downwards: comparing a float with the literal is then
  comparing it with the fraction.
\<close>

lemma gt_literal:
  assumes "is_binary64 q" and "fl_round x \<le> x" and "\<bar>x\<bar> \<le> 2 ^ 64"
  shows "float_gt (Fin q) (float_literal x) \<longleftrightarrow> x < q"
proof -
  have lit: "float_literal x = Fin (fl_round x)"
    unfolding float_literal_def using assms(3) by (rule to_double_small)
  have "fl_round x < q \<longleftrightarrow> x < q"
  proof
    assume gt: "fl_round x < q"
    show "x < q"
    proof (rule ccontr)
      assume "\<not> x < q"
      then have "q \<le> x" by simp
      then have "fl_round q \<le> fl_round x" by (rule fl_round_mono)
      then have "q \<le> fl_round x" using assms(1) by (simp add: is_binary64_def)
      then show False using gt by simp
    qed
  next
    assume "x < q"
    then show "fl_round x < q" using assms(2) by linarith
  qed
  then show ?thesis by (simp add: lit float_gt_def)
qed

lemma gt_literal_85:
  "is_binary64 q \<Longrightarrow> float_gt (Fin q) (float_literal (85 / 100)) \<longleftrightarrow> 85 / 100 < q"
  using fl_round_85 by (intro gt_literal) simp_all

lemma gt_literal_70:
  "is_binary64 q \<Longrightarrow> float_gt (Fin q) (float_literal (70 / 100)) \<longleftrightarrow> 70 / 100 < q"
  using fl_round_70 by (intro gt_literal) simp_all

lemma confidence_tier_binary64:
  assumes "is_binary64 q"
  shows "confidence_tier (Fin q) =
     (if 85 / 100 < q then ''high'' else if 70 / 100 < q then ''medium'' else ''low'')"
  unfolding confidence_tier_def by (simp only: gt_literal_85 [OF assms] gt_literal_70 [OF assms])

lemma confidence_tier_Fin:
  "confidence_tier (Fin q) =
     (if 7656119366529843 / 9007199254740992 < q then ''high''
      else if 6305039478318694 / 9007199254740992 < q then ''medium'' else ''low'')"
  by (simp add: confidence_tier_def float_gt_def float_literal_85 float_literal_70)

lemma confidence_tier_nonfinite:
  "confidence_tier PInf = ''high''" "confidence_tier NInf = ''low''" "confidence_tier NaN = ''low''"
  by (simp_all add: confidence_tier_def float_gt_def float_literal_85 float_literal_70)

lemma is_binary64_three_quarters: "is_binary64 (3 / 4)"
  using fl_round_eval [of "- 1" "3 / 4" "3 * 2 ^ 51"] max_double_big
  by (simp add: is_binary64_def)

text \<open>
  C2: for a result that signals auto-resolution the confidence tier uses strict
  greater-than boundaries. The float 0.85 is \<open>medium\<close> and the float 0.86 is \<open>high\<close>;
  every float strictly greater than 0.85 is \<open>high\<close>, every float strictly greater than
  0.70 but not greater than 0.85 is \<open>medium\<close>, and every other value (also minus
  infinity and NaN) is \<open>low\<close>. The wrapper then increments the auto-resolved counter once
  with the labels (category, tier), after the duration observation and the processed
  counter, and returns the result.
\<close>

theorem confidence_tier_strict_boundaries:
  "confidence_tier (float_literal (85 / 100)) = ''medium'' \<and>
   confidence_tier (float_literal (86 / 100)) = ''high'' \<and>
   (is_binary64 q \<longrightarrow>
      confidence_tier (Fin q) =
        (if 85 / 100 < q then ''high'' else if 70 / 100 < q then ''medium'' else ''low'')) \<and>
   confidence_tier PInf = ''high'' \<and> confidence_tier NInf = ''low'' \<and>
   confidence_tier NaN = ''low'' \<and>
   (func ticket kwargs w = (Inr result, w1) \<and> auto_resolved result = Some True \<longrightarrow>
      track_ticket_processing func ticket kwargs w =
        (Inr result,
         w1\<lparr>REGISTRY :=
           add_to_counter tickets_resolved_auto_total
             [dict_get ticket ''category'' ''general_inquiry'',
              confidence_tier (get_or (confidence result) (Fin 0))] (Fin 1)
             (add_to_counter tickets_processed_total
                [dict_get ticket ''category'' ''general_inquiry'',
                 dict_get kwargs ''environment'' ''production'',
                 dict_get ticket ''channel'' ''web''] (Fin 1)
                (add_observation response_duration_milliseconds []
                   (float_mul (float_sub (Fin (clock w1)) (Fin (clock w))) (Fin 1000))
                   (REGISTRY w1)))\<rparr>) \<and>
      counter_value (REGISTRY (snd (track_ticket_processing func ticket kwargs w)))
          tickets_resolved_auto_total
          [dict_get ticket ''category'' ''general_inquiry'',
           confidence_tier (get_or (confidence result) (Fin 0))] =
        num_add
          (counter_value (REGISTRY w1) tickets_resolved_auto_total
             [dict_get ticket ''category'' ''general_inquiry'',
              confidence_tier (get_or (confidence result) (Fin 0))])
          (Fin 1))"
proof (intro conjI impI)
  show "confidence_tier (float_literal (85 / 100)) = ''medium''"
    by (simp add: float_literal_85 confidence_tier_Fin)
  show "confidence_tier (float_literal (86 / 100)) = ''high''"
    by (simp add: float_literal_86 confidence_tier_Fin)
  show "confidence_tier (Fin q) =
      (if 85 / 100 < q then ''high'' else if 70 / 100 < q then ''medium'' else ''low'')"
    if "is_binary64 q" using that by (rule confidence_tier_binary64)
  show "confidence_tier PInf = ''high''" "confidence_tier NInf = ''low''"
    "confidence_tier NaN = ''low''"
    by (rule confidence_tier_nonfinite)+
next
  assume a: "func ticket kwargs w = (Inr result, w1) \<and> auto_resolved result = Some True"
  then have f: "func ticket kwargs w = (Inr result, w1)" and r: "auto_resolved result = Some True"
    by simp_all
  show eq: "track_ticket_processing func ticket kwargs w =
        (Inr result,
         w1\<lparr>REGISTRY :=
           add_to_counter tickets_resolved_auto_total
             [dict_get ticket ''category'' ''general_inquiry'',
              confidence_tier (get_or (confidence result) (Fin 0))] (Fin 1)
             (add_to_counter tickets_processed_total
                [dict_get ticket ''category'' ''general_inquiry'',
                 dict_get kwargs ''environment'' ''production'',
                 dict_get ticket ''channel'' ''web''] (Fin 1)
                (add_observation response_duration_milliseconds []
                   (float_mul (float_sub (Fin (clock w1)) (Fin (clock w))) (Fin 1000))
                   (REGISTRY w1)))\<rparr>)"
    using r
    by (simp add: get_or_def track_ticket_processing_success
        [where func = func and ticket = ticket and kwargs = kwargs and w = w, OF f])
  show "counter_value (REGISTRY (snd (track_ticket_processing func ticket kwargs w)))
          tickets_resolved_auto_total
          [dict_get ticket ''category'' ''general_inquiry'',
           confidence_tier (get_or (confidence result) (Fin 0))] =
        num_add
          (counter_value (REGISTRY w1) tickets_resolved_auto_total
             [dict_get ticket ''category'' ''general_inquiry'',
              confidence_tier (get_or (confidence result) (Fin 0))])
          (Fin 1)"
    by (simp add: eq counter_value_add_to_counter)
qed


theorem confidence_tier_strict_boundaries_witness:
  "is_binary64 (3 / 4) \<and>
   confidence_tier (Fin (3 / 4)) = ''medium'' \<and>
   (\<lambda>t k. return \<lparr>auto_resolved = Some True, confidence = Some (Fin (3 / 4)),
        escalated = None, escalation_reason = None\<rparr>)
      [''category'' \<mapsto> ''billing''] Map.empty initial_world =
     (Inr \<lparr>auto_resolved = Some True, confidence = Some (Fin (3 / 4)),
        escalated = None, escalation_reason = None\<rparr>, initial_world) \<and>
   auto_resolved \<lparr>auto_resolved = Some True, confidence = Some (Fin (3 / 4)),
        escalated = None, escalation_reason = None\<rparr> = Some True \<and>
   fst (track_ticket_processing
        (\<lambda>t k. return \<lparr>auto_resolved = Some True, confidence = Some (Fin (3 / 4)),
           escalated = None, escalation_reason = None\<rparr>)
        [''category'' \<mapsto> ''billing''] Map.empty initial_world) =
     Inr \<lparr>auto_resolved = Some True, confidence = Some (Fin (3 / 4)),
        escalated = None, escalation_reason = None\<rparr>"
proof -
  let ?r = "\<lparr>auto_resolved = Some True, confidence = Some (Fin (3 / 4)),
              escalated = None, escalation_reason = None\<rparr>"
  let ?f = "\<lambda>t k. return ?r :: ticket_result act"
  let ?t = "[''category'' \<mapsto> ''billing'']"
  note t = confidence_tier_strict_boundaries
    [where q = "3 / 4" and func = ?f and ticket = ?t and kwargs = Map.empty
       and w = initial_world and ?w1.0 = initial_world and result = ?r]
  have q: "is_binary64 (3 / 4)" by (rule is_binary64_three_quarters)
  have f: "?f ?t Map.empty initial_world = (Inr ?r, initial_world)" by (simp add: return_def)
  have r: "auto_resolved ?r = Some True" by simp
  have "confidence_tier (Fin (3 / 4)) =
      (if 85 / 100 < (3 / 4 :: rat) then ''high''
       else if 70 / 100 < (3 / 4 :: rat) then ''medium'' else ''low'')"
    using t q by blast
  then have tier: "confidence_tier (Fin (3 / 4)) = ''medium''" by simp
  have "\<exists>w'. track_ticket_processing ?f ?t Map.empty initial_world = (Inr ?r, w')"
    using t f r by blast
  then have "fst (track_ticket_processing ?f ?t Map.empty initial_world) = Inr ?r" by auto
  then show ?thesis using q f r tier by blast
qed

text \<open>
  C3 (amended): when the wrapped ticket-processing operation raises, the wrapper raises
  the same object, and the registry is left as the operation left it: no observation in
  the response-duration histogram and no increment of the processed, auto-resolved or
  escalated counters. An instance of \<^verbatim>\<open>Exception\<close> is logged as an error before it
  propagates; any other raised object (a \<^verbatim>\<open>BaseException\<close> that the handler
  \<^verbatim>\<open>except Exception\<close> does not catch) propagates without a log record, the world
  being left exactly as the operation left it.
\<close>

theorem ticket_failure_propagates:
  assumes "func ticket kwargs w = (Inl e, w1)"
  shows "fst (track_ticket_processing func ticket kwargs w) = Inl e \<and>
     REGISTRY (snd (track_ticket_processing func ticket kwargs w)) = REGISTRY w1 \<and>
     histogram_obs (REGISTRY (snd (track_ticket_processing func ticket kwargs w)))
         response_duration_milliseconds =
       histogram_obs (REGISTRY w1) response_duration_milliseconds \<and>
     counter_values (REGISTRY (snd (track_ticket_processing func ticket kwargs w)))
         tickets_processed_total =
       counter_values (REGISTRY w1) tickets_processed_total \<and>
     counter_values (REGISTRY (snd (track_ticket_processing func ticket kwargs w)))
         tickets_resolved_auto_total =
       counter_values (REGISTRY w1) tickets_resolved_auto_total \<and>
     counter_values (REGISTRY (snd (track_ticket_processing func ticket kwargs w)))
         tickets_escalated_total =
       counter_values (REGISTRY w1) tickets_escalated_total \<and>
     (is_Exception e \<longrightarrow>
        logger (snd (track_ticket_processing func ticket kwargs w)) =
          logger w1 @ [(ERROR, ''Error processing ticket: '' @ exc_msg e)]) \<and>
     (\<not> is_Exception e \<longrightarrow> snd (track_ticket_processing func ticket kwargs w) = w1)"
  by (simp add: track_ticket_processing_failure
      [where func = func and ticket = ticket and kwargs = kwargs and w = w, OF assms])

theorem ticket_failure_propagates_witness:
  "(\<lambda>t k. raise (PyExc True ''RuntimeError'' ''boom'') :: ticket_result act) Map.empty Map.empty initial_world =
     (Inl (PyExc True ''RuntimeError'' ''boom''), initial_world) \<and>
   is_Exception (PyExc True ''RuntimeError'' ''boom'') \<and>
   fst (track_ticket_processing (\<lambda>t k. raise (PyExc True ''RuntimeError'' ''boom'') :: ticket_result act)
          Map.empty Map.empty initial_world) = Inl (PyExc True ''RuntimeError'' ''boom'') \<and>
   REGISTRY (snd (track_ticket_processing (\<lambda>t k. raise (PyExc True ''RuntimeError'' ''boom'') :: ticket_result act)
          Map.empty Map.empty initial_world)) = REGISTRY initial_world \<and>
   logger (snd (track_ticket_processing (\<lambda>t k. raise (PyExc True ''RuntimeError'' ''boom'') :: ticket_result act)
          Map.empty Map.empty initial_world)) =
     logger initial_world @ [(ERROR, ''Error processing ticket: boom'')]"
proof -
  let ?e = "PyExc True ''RuntimeError'' ''boom''"
  let ?f = "\<lambda>t k. raise ?e :: ticket_result act"
  have f: "?f Map.empty Map.empty initial_world = (Inl ?e, initial_world)"
    by (simp add: raise_def)
  note t = ticket_failure_propagates
    [where func = ?f and ticket = Map.empty and kwargs = Map.empty and w = initial_world
       and e = ?e and ?w1.0 = initial_world, OF f]
  have e: "is_Exception ?e" by simp
  have c1: "fst (track_ticket_processing ?f Map.empty Map.empty initial_world) = Inl ?e"
    using t by (rule conjunct1)
  have c2: "REGISTRY (snd (track_ticket_processing ?f Map.empty Map.empty initial_world)) =
      REGISTRY initial_world"
    using t [THEN conjunct2] by (rule conjunct1)
  have "logger (snd (track_ticket_processing ?f Map.empty Map.empty initial_world)) =
      logger initial_world @ [(ERROR, ''Error processing ticket: '' @ exc_msg ?e)]"
    using t e by blast
  then have c3: "logger (snd (track_ticket_processing ?f Map.empty Map.empty initial_world)) =
      logger initial_world @ [(ERROR, ''Error processing ticket: boom'')]"
    by simp
  show ?thesis by (intro conjI f e c1 c2 c3)
qed

text \<open>
  C3 as stated fails: a cancelled operation raises \<^verbatim>\<open>CancelledError\<close>, which is not
  an instance of \<^verbatim>\<open>Exception\<close>; the wrapper propagates it and logs nothing.
\<close>

theorem ticket_cancelled_counterexample:
  "fst (track_ticket_processing cancelled_process_ticket Map.empty Map.empty initial_world) =
     Inl CancelledError \<and>
   logger (snd (track_ticket_processing cancelled_process_ticket Map.empty Map.empty
     initial_world)) = []"
  using track_ticket_processing_failure
    [where func = cancelled_process_ticket and ticket = Map.empty and kwargs = Map.empty
       and w = initial_world and e = CancelledError and ?w1.0 = initial_world]
  by (simp add: cancelled_process_ticket_def raise_def CancelledError_def initial_world_def)

text \<open>
  C9: a result with \<^verbatim>\<open>auto_resolved\<close> true and no \<^verbatim>\<open>confidence\<close> key is given the
  confidence 0 and the tier \<open>low\<close>, and the auto-resolved counter is incremented with
  (category, \<open>low\<close>). When \<^verbatim>\<open>auto_resolved\<close> and \<^verbatim>\<open>escalated\<close> are both true, the
  auto-resolved counter is incremented and the escalated counter is left as it was.
\<close>

theorem auto_resolved_defaults_and_precedence:
  assumes "func ticket kwargs w = (Inr result, w1)" and "auto_resolved result = Some True"
  shows "(confidence result = None \<longrightarrow>
      confidence_tier (get_or (confidence result) (Fin 0)) = ''low'' \<and>
      track_ticket_processing func ticket kwargs w =
        (Inr result,
         w1\<lparr>REGISTRY :=
           add_to_counter tickets_resolved_auto_total
             [dict_get ticket ''category'' ''general_inquiry'', ''low''] (Fin 1)
             (add_to_counter tickets_processed_total
                [dict_get ticket ''category'' ''general_inquiry'',
                 dict_get kwargs ''environment'' ''production'',
                 dict_get ticket ''channel'' ''web''] (Fin 1)
                (add_observation response_duration_milliseconds []
                   (float_mul (float_sub (Fin (clock w1)) (Fin (clock w))) (Fin 1000))
                   (REGISTRY w1)))\<rparr>)) \<and>
     (escalated result = Some True \<longrightarrow>
      counter_values (REGISTRY (snd (track_ticket_processing func ticket kwargs w)))
          tickets_escalated_total =
        counter_values (REGISTRY w1) tickets_escalated_total \<and>
      counter_value (REGISTRY (snd (track_ticket_processing func ticket kwargs w)))
          tickets_resolved_auto_total
          [dict_get ticket ''category'' ''general_inquiry'',
           confidence_tier (get_or (confidence result) (Fin 0))] =
        num_add
          (counter_value (REGISTRY w1) tickets_resolved_auto_total
             [dict_get ticket ''category'' ''general_inquiry'',
              confidence_tier (get_or (confidence result) (Fin 0))])
          (Fin 1))"
  using assms(2)
  by (simp add: get_or_def confidence_tier_Fin counter_value_add_to_counter
      counter_values_add_to_counter_other
      track_ticket_processing_success
        [where func = func and ticket = ticket and kwargs = kwargs and w = w, OF assms(1)])

theorem auto_resolved_defaults_and_precedence_witness:
  "(\<lambda>t k. return \<lparr>auto_resolved = Some True, confidence = None,
        escalated = Some True, escalation_reason = Some ''angry''\<rparr>)
      Map.empty Map.empty initial_world =
     (Inr \<lparr>auto_resolved = Some True, confidence = None,
        escalated = Some True, escalation_reason = Some ''angry''\<rparr>, initial_world) \<and>
   confidence_tier (Fin 0) = ''low'' \<and>
   counter_values
     (REGISTRY (snd (track_ticket_processing
        (\<lambda>t k. return \<lparr>auto_resolved = Some True, confidence = None,
           escalated = Some True, escalation_reason = Some ''angry''\<rparr>)
        Map.empty Map.empty initial_world)))
     tickets_escalated_total =
   counter_values (REGISTRY initial_world) tickets_escalated_total"
proof -
  let ?r = "\<lparr>auto_resolved = Some True, confidence = None,
              escalated = Some True, escalation_reason = Some ''angry''\<rparr>"
  let ?f = "\<lambda>t k. return ?r :: ticket_result act"
  have f: "?f Map.empty Map.empty initial_world = (Inr ?r, initial_world)"
    by (simp add: return_def)
  have r: "auto_resolved ?r = Some True" by simp
  note t = auto_resolved_defaults_and_precedence
    [where func = ?f and ticket = Map.empty and kwargs = Map.empty and w = initial_world
       and ?w1.0 = initial_world and result = ?r, OF f r]
  have c: "confidence ?r = None" and s: "escalated ?r = Some True" by simp_all
  have "confidence_tier (get_or (confidence ?r) (Fin 0)) = ''low''" using t c by blast
  then have tier: "confidence_tier (Fin 0) = ''low''" by (simp add: get_or_def)
  have "counter_values
      (REGISTRY (snd (track_ticket_processing ?f Map.empty Map.empty initial_world)))
      tickets_escalated_total =
    counter_values (REGISTRY initial_world) tickets_escalated_total"
    using t s by blast
  then show ?thesis using f tier by blast
qed

section \<open>The LLM-call wrapper\<close>

lemma track_llm_call_failure:
  assumes "func w = (Inl e, w1)"
  shows "track_llm_call provider model func w =
     (Inl e,
      if is_Exception e
      then w1\<lparr>REGISTRY :=
               add_to_counter llm_api_errors_total [provider, exc_type e] (Fin 1)
                 (add_to_counter llm_api_requests_total [provider, model, ''error''] (Fin 1)
                    (REGISTRY w1)),
             logger := logger w1 @ [(ERROR, ''LLM API error: '' @ exc_msg e)]\<rparr>
      else w1)"
  using assms
  by (simp add: track_llm_call_def bind_act_def time_time_def try_except_Exception_def
      counter_inc_def logger_error_def raise_def)

lemma track_llm_call_no_usage:
  assumes "func w = (Inr result, w1)" and "usage result = None"
  shows "track_llm_call provider model func w =
     (Inr result,
      w1\<lparr>REGISTRY :=
        add_to_counter llm_api_requests_total [provider, model, ''success''] (Fin 1)
          (add_observation llm_response_duration_seconds [provider, model]
             (float_sub (Fin (clock w1)) (Fin (clock w))) (REGISTRY w1))\<rparr>)"
  using assms
  by (simp add: track_llm_call_def bind_act_def time_time_def try_except_Exception_def
      histogram_observe_def counter_inc_def return_def Let_def)

text \<open>The cost model only writes to the log; its value does not depend on the world.\<close>

lemma calculate_llm_cost_uniform:
  "\<exists>v msgs. \<forall>w. calculate_llm_cost provider model i j w = (v, w\<lparr>logger := logger w @ msgs\<rparr>)"
proof (cases "map_of pricing provider")
  case None
  then show ?thesis
    by (intro exI [of _ "Inr (Fin 0)"]
        exI [of _ "[(WARNING, ''Unknown pricing for '' @ provider @ ''/'' @ model @
          '', using default'')]"])
      (simp add: calculate_llm_cost_def unknown_pricing_eq)
next
  case (Some models)
  show ?thesis
  proof (cases "map_of models model")
    case None
    then show ?thesis using Some
      by (intro exI [of _ "Inr (Fin 0)"]
          exI [of _ "[(WARNING, ''Unknown pricing for '' @ provider @ ''/'' @ model @
            '', using default'')]"])
        (simp add: calculate_llm_cost_def unknown_pricing_eq)
  next
    case rs: (Some rs)
    show ?thesis
      by (intro exI [of _ "fst (calculate_llm_cost provider model i j initial_world)"]
          exI [of _ "[]"])
        (simp add: calculate_llm_cost_priced [OF Some rs] split: sum.splits)
  qed
qed

lemma track_llm_call_usage:
  assumes "func w = (Inr result, w1)" and "usage result = Some u"
    and "0 \<le> get_or (input_tokens u) 0" and "get_or (input_tokens u) 0 < 2 ^ 1024 - 2 ^ 970"
    and "0 \<le> get_or (output_tokens u) 0" and "get_or (output_tokens u) 0 < 2 ^ 1024 - 2 ^ 970"
  shows "\<exists>a b cost.
     int_to_float (get_or (input_tokens u) 0) = Inr (Fin a) \<and>
     int_to_float (get_or (output_tokens u) 0) = Inr (Fin b) \<and>
     fst (calculate_llm_cost provider model
            (get_or (input_tokens u) 0) (get_or (output_tokens u) 0) w1) = Inr cost \<and>
     fst (track_llm_call provider model func w) = Inr result \<and>
     REGISTRY (snd (track_llm_call provider model func w)) =
       add_to_counter llm_api_requests_total [provider, model, ''success''] (Fin 1)
         (add_to_counter llm_api_cost_dollars [provider, model] cost
            (add_to_counter llm_tokens_total [provider, model, ''output''] (Fin b)
               (add_to_counter llm_tokens_total [provider, model, ''input''] (Fin a)
                  (add_observation llm_response_duration_seconds [provider, model]
                     (float_sub (Fin (clock w1)) (Fin (clock w))) (REGISTRY w1)))))"
proof -
  define i where "i = get_or (input_tokens u) 0"
  define j where "j = get_or (output_tokens u) 0"
  have ij: "0 \<le> i" "i < 2 ^ 1024 - 2 ^ 970" "0 \<le> j" "j < 2 ^ 1024 - 2 ^ 970"
    using assms(3-6) by (simp_all add: i_def j_def)
  obtain a where a: "int_to_float i = Inr (Fin a)" "0 \<le> a"
    using int_to_float_ok [OF ij(1,2)] by blast
  obtain b where b: "int_to_float j = Inr (Fin b)" "0 \<le> b"
    using int_to_float_ok [OF ij(3,4)] by blast
  obtain v msgs where calc:
    "\<And>w'. calculate_llm_cost provider model i j w' = (v, w'\<lparr>logger := logger w' @ msgs\<rparr>)"
    using calculate_llm_cost_uniform [of provider model i j] by blast
  obtain c where "fst (calculate_llm_cost provider model i j w1) = Inr (Fin c)" and c: "0 \<le> c"
    using calculate_llm_cost_nonneg [OF ij, of provider model w1] by blast
  then have v: "v = Inr (Fin c)" by (simp add: calc)
  have "int_to_float i = Inr (Fin a) \<and> int_to_float j = Inr (Fin b) \<and>
     fst (calculate_llm_cost provider model i j w1) = Inr (Fin c) \<and>
     fst (track_llm_call provider model func w) = Inr result \<and>
     REGISTRY (snd (track_llm_call provider model func w)) =
       add_to_counter llm_api_requests_total [provider, model, ''success''] (Fin 1)
         (add_to_counter llm_api_cost_dollars [provider, model] (Fin c)
            (add_to_counter llm_tokens_total [provider, model, ''output''] (Fin b)
               (add_to_counter llm_tokens_total [provider, model, ''input''] (Fin a)
                  (add_observation llm_response_duration_seconds [provider, model]
                     (float_sub (Fin (clock w1)) (Fin (clock w))) (REGISTRY w1)))))"
    using assms(1,2) ij(1,3) a b c
    by (simp add: track_llm_call_def bind_act_def time_time_def try_except_Exception_def
        histogram_observe_def counter_inc_int_def counter_inc_def return_def Let_def calc v
        i_def [symmetric] j_def [symmetric])
  then show ?thesis unfolding i_def j_def by blast
qed

lemma track_llm_call_cancelled:
  assumes "func w = (Inl e, w1)" and "\<not> is_Exception e"
  shows "track_llm_call provider model func w = (Inl e, w1)"
  using assms(2) by (simp add: track_llm_call_failure [where func = func and w = w, OF assms(1)])

text \<open>
  C4 (amended): when the wrapped LLM call raises an instance of \<^verbatim>\<open>Exception\<close>, the
  wrapper increments the request counter labelled (provider, model, \<open>error\<close>) once and
  the error counter labelled (provider, name of the exception's type) once, leaves the
  latency histogram, the token counters, the cost counter and the \<open>success\<close> request
  counter as the call left them, logs the error and raises the same exception. Any other
  raised object (a \<^verbatim>\<open>BaseException\<close> that the handler \<^verbatim>\<open>except Exception\<close> does not
  catch) propagates unchanged: no counter is incremented and nothing is logged.
\<close>

theorem llm_failure_counted_once:
  assumes "func w = (Inl e, w1)"
  shows "(is_Exception e \<longrightarrow>
     track_llm_call provider model func w =
       (Inl e,
        w1\<lparr>REGISTRY :=
             add_to_counter llm_api_errors_total [provider, exc_type e] (Fin 1)
               (add_to_counter llm_api_requests_total [provider, model, ''error''] (Fin 1)
                  (REGISTRY w1)),
           logger := logger w1 @ [(ERROR, ''LLM API error: '' @ exc_msg e)]\<rparr>) \<and>
     counter_value (REGISTRY (snd (track_llm_call provider model func w)))
         llm_api_requests_total [provider, model, ''error''] =
       num_add (counter_value (REGISTRY w1) llm_api_requests_total [provider, model, ''error''])
         (Fin 1) \<and>
     counter_value (REGISTRY (snd (track_llm_call provider model func w)))
         llm_api_errors_total [provider, exc_type e] =
       num_add (counter_value (REGISTRY w1) llm_api_errors_total [provider, exc_type e])
         (Fin 1) \<and>
     counter_value (REGISTRY (snd (track_llm_call provider model func w)))
         llm_api_requests_total [provider, model, ''success''] =
       counter_value (REGISTRY w1) llm_api_requests_total [provider, model, ''success''] \<and>
     histogram_obs (REGISTRY (snd (track_llm_call provider model func w))) =
       histogram_obs (REGISTRY w1) \<and>
     counter_values (REGISTRY (snd (track_llm_call provider model func w))) llm_tokens_total =
       counter_values (REGISTRY w1) llm_tokens_total \<and>
     counter_values (REGISTRY (snd (track_llm_call provider model func w)))
         llm_api_cost_dollars =
       counter_values (REGISTRY w1) llm_api_cost_dollars) \<and>
    (\<not> is_Exception e \<longrightarrow> track_llm_call provider model func w = (Inl e, w1))"
  by (simp add: track_llm_call_failure [where func = func and w = w, OF assms]
      counter_value_add_to_counter counter_values_add_to_counter_other)

theorem llm_failure_counted_once_witness:
  "(raise (PyExc True ''TimeoutError'' ''timed out'') :: llm_result act) initial_world =
     (Inl (PyExc True ''TimeoutError'' ''timed out''), initial_world) \<and>
   is_Exception (PyExc True ''TimeoutError'' ''timed out'') \<and>
   fst (track_llm_call ''anthropic'' ''claude-sonnet-4''
          (raise (PyExc True ''TimeoutError'' ''timed out'') :: llm_result act)
          initial_world) = Inl (PyExc True ''TimeoutError'' ''timed out'') \<and>
   counter_value
     (REGISTRY (snd (track_llm_call ''anthropic'' ''claude-sonnet-4''
        (raise (PyExc True ''TimeoutError'' ''timed out'') :: llm_result act) initial_world)))
     llm_api_errors_total [''anthropic'', ''TimeoutError''] = Fin 1"
proof -
  let ?e = "PyExc True ''TimeoutError'' ''timed out''"
  let ?f = "raise ?e :: llm_result act"
  have f: "?f initial_world = (Inl ?e, initial_world)" by (simp add: raise_def)
  have e: "is_Exception ?e" by simp
  note t = llm_failure_counted_once
    [where func = ?f and w = initial_world and e = ?e and ?w1.0 = initial_world
       and provider = "''anthropic''" and model = "''claude-sonnet-4''", OF f,
     THEN conjunct1, rule_format, OF e]
  have c1: "fst (track_llm_call ''anthropic'' ''claude-sonnet-4'' ?f initial_world) = Inl ?e"
    using t [THEN conjunct1] by simp
  have "counter_value
      (REGISTRY (snd (track_llm_call ''anthropic'' ''claude-sonnet-4'' ?f initial_world)))
      llm_api_errors_total [''anthropic'', exc_type ?e] =
    num_add (counter_value (REGISTRY initial_world) llm_api_errors_total
       [''anthropic'', exc_type ?e]) (Fin 1)"
    using t [THEN conjunct2, THEN conjunct2] by (rule conjunct1)
  then have c2: "counter_value
      (REGISTRY (snd (track_llm_call ''anthropic'' ''claude-sonnet-4'' ?f initial_world)))
      llm_api_errors_total [''anthropic'', ''TimeoutError''] = Fin 1"
    by (simp add: counter_value_def initial_world_def initial_registry_def)
  show ?thesis by (intro conjI f e c1 c2)
qed

text \<open>
  C4 as stated fails: an LLM call that is cancelled raises \<^verbatim>\<open>CancelledError\<close>, which
  is not an instance of \<^verbatim>\<open>Exception\<close>; the wrapper propagates it and leaves the world
  as it was, with no error counted.
\<close>

theorem llm_cancelled_counterexample:
  "track_llm_call ''anthropic'' ''claude-sonnet-4'' (raise CancelledError :: llm_result act)
     initial_world = (Inl CancelledError, initial_world) \<and>
   counter_value
     (REGISTRY (snd (track_llm_call ''anthropic'' ''claude-sonnet-4''
        (raise CancelledError :: llm_result act) initial_world)))
     llm_api_requests_total [''anthropic'', ''claude-sonnet-4'', ''error''] = Fin 0 \<and>
   counter_value
     (REGISTRY (snd (track_llm_call ''anthropic'' ''claude-sonnet-4''
        (raise CancelledError :: llm_result act) initial_world)))
     llm_api_errors_total [''anthropic'', ''CancelledError''] = Fin 0"
proof -
  have f: "(raise CancelledError :: llm_result act) initial_world =
      (Inl CancelledError, initial_world)"
    by (simp add: raise_def)
  have e: "\<not> is_Exception CancelledError" by (simp add: CancelledError_def)
  have run: "track_llm_call ''anthropic'' ''claude-sonnet-4''
      (raise CancelledError :: llm_result act) initial_world = (Inl CancelledError, initial_world)"
    using f e by (rule track_llm_call_cancelled)
  show ?thesis by (simp add: run counter_value_initial)
qed

text \<open>
  C5 (amended): when the wrapped LLM call returns a result whose usage token counts, if
  it has a \<^verbatim>\<open>usage\<close> key, are non-negative and below \<open>2 ^ 1024 - 2 ^ 970\<close> (a missing
  count reads as 0), the wrapper observes the elapsed seconds in the latency histogram
  labelled (provider, model) and increments the request counter labelled
  (provider, model, \<open>success\<close>); if and only if the result has a \<^verbatim>\<open>usage\<close> key it also
  increments the \<open>input\<close> token counter by the input count as a float, the \<open>output\<close>
  token counter by the output count as a float (the count itself up to \<open>2 ^ 53\<close>, the
  nearest float beyond), and the cost counter by the cost of the two counts; it returns
  the result of the call unchanged.
\<close>

theorem llm_success_recorded:
  assumes "func w = (Inr result, w1)"
  shows "(usage result = None \<longrightarrow>
       track_llm_call provider model func w =
         (Inr result,
          w1\<lparr>REGISTRY :=
            add_to_counter llm_api_requests_total [provider, model, ''success''] (Fin 1)
              (add_observation llm_response_duration_seconds [provider, model]
                 (float_sub (Fin (clock w1)) (Fin (clock w))) (REGISTRY w1))\<rparr>)) \<and>
     (usage result = Some u \<and>
      0 \<le> get_or (input_tokens u) 0 \<and> get_or (input_tokens u) 0 < 2 ^ 1024 - 2 ^ 970 \<and>
      0 \<le> get_or (output_tokens u) 0 \<and> get_or (output_tokens u) 0 < 2 ^ 1024 - 2 ^ 970 \<longrightarrow>
       (\<exists>a b cost.
          int_to_float (get_or (input_tokens u) 0) = Inr (Fin a) \<and>
          int_to_float (get_or (output_tokens u) 0) = Inr (Fin b) \<and>
          (get_or (input_tokens u) 0 \<le> 2 ^ 53 \<longrightarrow> a = of_int (get_or (input_tokens u) 0)) \<and>
          (get_or (output_tokens u) 0 \<le> 2 ^ 53 \<longrightarrow> b = of_int (get_or (output_tokens u) 0)) \<and>
          fst (calculate_llm_cost provider model
                 (get_or (input_tokens u) 0) (get_or (output_tokens u) 0) w1) = Inr cost \<and>
          fst (track_llm_call provider model func w) = Inr result \<and>
          REGISTRY (snd (track_llm_call provider model func w)) =
            add_to_counter llm_api_requests_total [provider, model, ''success''] (Fin 1)
              (add_to_counter llm_api_cost_dollars [provider, model] cost
                 (add_to_counter llm_tokens_total [provider, model, ''output''] (Fin b)
                    (add_to_counter llm_tokens_total [provider, model, ''input''] (Fin a)
                       (add_observation llm_response_duration_seconds [provider, model]
                          (float_sub (Fin (clock w1)) (Fin (clock w))) (REGISTRY w1)))))))"
proof (intro conjI impI)
  assume "usage result = None"
  then show "track_llm_call provider model func w =
         (Inr result,
          w1\<lparr>REGISTRY :=
            add_to_counter llm_api_requests_total [provider, model, ''success''] (Fin 1)
              (add_observation llm_response_duration_seconds [provider, model]
                 (float_sub (Fin (clock w1)) (Fin (clock w))) (REGISTRY w1))\<rparr>)"
    by (rule track_llm_call_no_usage [where func = func and w = w, OF assms])
next
  let ?i = "get_or (input_tokens u) 0"
  let ?j = "get_or (output_tokens u) 0"
  assume a: "usage result = Some u \<and>
      0 \<le> ?i \<and> ?i < 2 ^ 1024 - 2 ^ 970 \<and> 0 \<le> ?j \<and> ?j < 2 ^ 1024 - 2 ^ 970"
  then have u: "usage result = Some u" and i: "0 \<le> ?i" "?i < 2 ^ 1024 - 2 ^ 970"
    and j: "0 \<le> ?j" "?j < 2 ^ 1024 - 2 ^ 970"
    by simp_all
  obtain x y cost where run:
    "int_to_float ?i = Inr (Fin x)" "int_to_float ?j = Inr (Fin y)"
    "fst (calculate_llm_cost provider model ?i ?j w1) = Inr cost"
    "fst (track_llm_call provider model func w) = Inr result"
    "REGISTRY (snd (track_llm_call provider model func w)) =
       add_to_counter llm_api_requests_total [provider, model, ''success''] (Fin 1)
         (add_to_counter llm_api_cost_dollars [provider, model] cost
            (add_to_counter llm_tokens_total [provider, model, ''output''] (Fin y)
               (add_to_counter llm_tokens_total [provider, model, ''input''] (Fin x)
                  (add_observation llm_response_duration_seconds [provider, model]
                     (float_sub (Fin (clock w1)) (Fin (clock w))) (REGISTRY w1)))))"
    using track_llm_call_usage
      [where func = func and w = w and provider = provider and model = model,
       OF assms u i j]
    by blast
  have ex: "?i \<le> 2 ^ 53 \<longrightarrow> x = of_int ?i"
    using int_to_float_exact [OF i(1)] run(1) by auto
  have ey: "?j \<le> 2 ^ 53 \<longrightarrow> y = of_int ?j"
    using int_to_float_exact [OF j(1)] run(2) by auto
  show "\<exists>a b cost.
          int_to_float ?i = Inr (Fin a) \<and>
          int_to_float ?j = Inr (Fin b) \<and>
          (?i \<le> 2 ^ 53 \<longrightarrow> a = of_int ?i) \<and>
          (?j \<le> 2 ^ 53 \<longrightarrow> b = of_int ?j) \<and>
          fst (calculate_llm_cost provider model ?i ?j w1) = Inr cost \<and>
          fst (track_llm_call provider model func w) = Inr result \<and>
          REGISTRY (snd (track_llm_call provider model func w)) =
            add_to_counter llm_api_requests_total [provider, model, ''success''] (Fin 1)
              (add_to_counter llm_api_cost_dollars [provider, model] cost
                 (add_to_counter llm_tokens_total [provider, model, ''output''] (Fin b)
                    (add_to_counter llm_tokens_total [provider, model, ''input''] (Fin a)
                       (add_observation llm_response_duration_seconds [provider, model]
                          (float_sub (Fin (clock w1)) (Fin (clock w))) (REGISTRY w1)))))"
    using run ex ey by blast
qed

theorem llm_success_recorded_witness:
  "return \<lparr>usage = Some \<lparr>input_tokens = Some 150, output_tokens = Some 300\<rparr>\<rparr> initial_world =
     (Inr \<lparr>usage = Some \<lparr>input_tokens = Some 150, output_tokens = Some 300\<rparr>\<rparr>,
      initial_world) \<and>
   (0::int) \<le> 150 \<and> (150::int) < 2 ^ 1024 - 2 ^ 970 \<and>
   (0::int) \<le> 300 \<and> (300::int) < 2 ^ 1024 - 2 ^ 970 \<and>
   fst (track_llm_call ''anthropic'' ''claude-sonnet-4''
          (return \<lparr>usage = Some \<lparr>input_tokens = Some 150, output_tokens = Some 300\<rparr>\<rparr>)
          initial_world) =
     Inr \<lparr>usage = Some \<lparr>input_tokens = Some 150, output_tokens = Some 300\<rparr>\<rparr> \<and>
   counter_value
     (REGISTRY (snd (track_llm_call ''anthropic'' ''claude-sonnet-4''
        (return \<lparr>usage = Some \<lparr>input_tokens = Some 150, output_tokens = Some 300\<rparr>\<rparr>)
        initial_world)))
     llm_tokens_total [''anthropic'', ''claude-sonnet-4'', ''input''] = Fin 150"
proof -
  let ?u = "\<lparr>input_tokens = Some 150, output_tokens = Some 300\<rparr>"
  let ?r = "\<lparr>usage = Some ?u\<rparr>"
  let ?run = "track_llm_call ''anthropic'' ''claude-sonnet-4'' (return ?r) initial_world"
  have f: "return ?r initial_world = (Inr ?r, initial_world)" by (simp add: return_def)
  note t = llm_success_recorded
    [where func = "return ?r" and w = initial_world and result = ?r and ?w1.0 = initial_world
       and provider = "''anthropic''" and model = "''claude-sonnet-4''" and u = ?u, OF f]
  have u: "usage ?r = Some ?u \<and>
      0 \<le> get_or (input_tokens ?u) 0 \<and> get_or (input_tokens ?u) 0 < 2 ^ 1024 - 2 ^ 970 \<and>
      0 \<le> get_or (output_tokens ?u) 0 \<and> get_or (output_tokens ?u) 0 < 2 ^ 1024 - 2 ^ 970"
    by (simp add: get_or_def)
  obtain a b cost where run:
    "get_or (input_tokens ?u) 0 \<le> 2 ^ 53 \<longrightarrow> a = of_int (get_or (input_tokens ?u) 0)"
    "fst ?run = Inr ?r"
    "REGISTRY (snd ?run) =
       add_to_counter llm_api_requests_total
         [''anthropic'', ''claude-sonnet-4'', ''success''] (Fin 1)
         (add_to_counter llm_api_cost_dollars [''anthropic'', ''claude-sonnet-4''] cost
            (add_to_counter llm_tokens_total
               [''anthropic'', ''claude-sonnet-4'', ''output''] (Fin b)
               (add_to_counter llm_tokens_total
                  [''anthropic'', ''claude-sonnet-4'', ''input''] (Fin a)
                  (add_observation llm_response_duration_seconds
                     [''anthropic'', ''claude-sonnet-4'']
                     (float_sub (Fin (clock initial_world)) (Fin (clock initial_world)))
                     (REGISTRY initial_world)))))"
    using t [THEN conjunct2, rule_format, OF u] by blast
  have a: "a = 150" using run(1) by (simp add: get_or_def)
  have c: "counter_value (REGISTRY (snd ?run)) llm_tokens_total
      [''anthropic'', ''claude-sonnet-4'', ''input''] = Fin 150"
    unfolding run(3) by (simp add: a counter_value_add_to_counter counter_value_initial)
  show ?thesis using f run(2) c by simp
qed

text \<open>
  C5 as stated fails in three ways, each on a call that returns successfully. With a
  negative token count the token counter rejects the increment, and the wrapper raises
  that error instead of returning the result. With a token count of \<open>2 ^ 1024\<close> the
  conversion of the count to a float raises \<^verbatim>\<open>OverflowError\<close> in the increment, also on
  an unpriced model. With a token count of \<open>2 ^ 53 + 1\<close> the wrapper returns, but the
  token counter has gained \<open>2 ^ 53\<close>, not the count.
\<close>

theorem llm_token_counts_counterexample:
  "fst (track_llm_call ''anthropic'' ''claude-sonnet-4''
          (return \<lparr>usage = Some \<lparr>input_tokens = Some (- 1), output_tokens = Some 0\<rparr>\<rparr>)
          initial_world) = Inl InvalidValue \<and>
   fst (track_llm_call ''mistral'' ''large''
          (return \<lparr>usage = Some \<lparr>input_tokens = Some (2 ^ 1024), output_tokens = Some 0\<rparr>\<rparr>)
          initial_world) = Inl OverflowError \<and>
   counter_value
     (REGISTRY (snd (track_llm_call ''mistral'' ''large''
        (return \<lparr>usage = Some \<lparr>input_tokens = Some (2 ^ 53 + 1), output_tokens = Some 0\<rparr>\<rparr>)
        initial_world)))
     llm_tokens_total [''mistral'', ''large'', ''input''] = Fin (2 ^ 53)"
proof (intro conjI)
  show "fst (track_llm_call ''anthropic'' ''claude-sonnet-4''
          (return \<lparr>usage = Some \<lparr>input_tokens = Some (- 1), output_tokens = Some 0\<rparr>\<rparr>)
          initial_world) = Inl InvalidValue"
    by (simp add: track_llm_call_def bind_act_def time_time_def try_except_Exception_def
        histogram_observe_def counter_inc_int_def counter_inc_def return_def raise_def
        logger_error_def Let_def get_or_def InvalidValue_def)
  show "fst (track_llm_call ''mistral'' ''large''
          (return \<lparr>usage = Some \<lparr>input_tokens = Some (2 ^ 1024), output_tokens = Some 0\<rparr>\<rparr>)
          initial_world) = Inl OverflowError"
    using int_to_float_overflow
    by (simp add: track_llm_call_def bind_act_def time_time_def try_except_Exception_def
        histogram_observe_def counter_inc_int_def counter_inc_def return_def raise_def
        logger_error_def Let_def get_or_def OverflowError_def)
next
  let ?u = "\<lparr>input_tokens = Some (2 ^ 53 + 1), output_tokens = Some 0\<rparr>"
  let ?r = "\<lparr>usage = Some ?u\<rparr>"
  let ?run = "track_llm_call ''mistral'' ''large'' (return ?r) initial_world"
  have f: "return ?r initial_world = (Inr ?r, initial_world)" by (simp add: return_def)
  have u: "usage ?r = Some ?u" by simp
  have i: "0 \<le> get_or (input_tokens ?u) 0" "get_or (input_tokens ?u) 0 < 2 ^ 1024 - 2 ^ 970"
    and j: "0 \<le> get_or (output_tokens ?u) 0" "get_or (output_tokens ?u) 0 < 2 ^ 1024 - 2 ^ 970"
    by (simp_all add: get_or_def)
  obtain a b cost where run:
    "int_to_float (get_or (input_tokens ?u) 0) = Inr (Fin a)"
    "REGISTRY (snd ?run) =
       add_to_counter llm_api_requests_total [''mistral'', ''large'', ''success''] (Fin 1)
         (add_to_counter llm_api_cost_dollars [''mistral'', ''large''] cost
            (add_to_counter llm_tokens_total [''mistral'', ''large'', ''output''] (Fin b)
               (add_to_counter llm_tokens_total [''mistral'', ''large'', ''input''] (Fin a)
                  (add_observation llm_response_duration_seconds [''mistral'', ''large'']
                     (float_sub (Fin (clock initial_world)) (Fin (clock initial_world)))
                     (REGISTRY initial_world)))))"
    using track_llm_call_usage
      [where func = "return ?r" and w = initial_world and provider = "''mistral''"
         and model = "''large''", OF f u i j]
    by blast
  have a: "a = 2 ^ 53" using run(1) int_to_float_2_53_plus_1 by (simp add: get_or_def)
  show "counter_value (REGISTRY (snd ?run)) llm_tokens_total [''mistral'', ''large'', ''input''] =
      Fin (2 ^ 53)"
    unfolding run(2) by (simp add: a counter_value_add_to_counter counter_value_initial)
qed

section \<open>The HTTP-request wrapper\<close>

lemma py_str_int_500: "py_str_int 500 = ''500''"
  by (simp add: py_str_int_def str_nat.simps)

lemma py_str_int_200: "py_str_int 200 = ''200''"
  by (simp add: py_str_int_def str_nat.simps)

lemma track_http_request_success:
  assumes "func request w = (Inr response, w1)"
  shows "track_http_request func request w =
     (Inr response,
      w1\<lparr>REGISTRY :=
        add_to_counter http_requests_total
          [http_method request, path request, py_str_int (status_code response)] (Fin 1)
          (REGISTRY w1)\<rparr>)"
  using assms
  by (simp add: track_http_request_def bind_act_def try_except_Exception_def counter_inc_def
      return_def)

lemma track_http_request_failure:
  assumes "func request w = (Inl e, w1)"
  shows "track_http_request func request w =
     (Inl e,
      if is_Exception e
      then w1\<lparr>REGISTRY :=
             add_to_counter http_requests_total
               [http_method request, path request, ''500''] (Fin 1) (REGISTRY w1)\<rparr>
      else w1)"
  using assms
  by (simp add: track_http_request_def bind_act_def try_except_Exception_def counter_inc_def
      raise_def py_str_int_500)

text \<open>
  C6 (amended): when the wrapped request handler returns, the wrapper increments the
  request counter labelled with the request's method, the request's path and the
  response's status code, and returns the response unchanged; when the handler raises an
  instance of \<^verbatim>\<open>Exception\<close>, the wrapper increments the same counter with the request's
  method, the request's path and the fixed status 500, and raises the same exception.
  Any other raised object (a \<^verbatim>\<open>BaseException\<close> that the handler \<^verbatim>\<open>except Exception\<close>
  does not catch) propagates unchanged and no counter is incremented.
\<close>

theorem http_request_counted:
  "(func request w = (Inr response, w1) \<longrightarrow>
      track_http_request func request w =
        (Inr response,
         w1\<lparr>REGISTRY :=
           add_to_counter http_requests_total
             [http_method request, path request, py_str_int (status_code response)] (Fin 1)
             (REGISTRY w1)\<rparr>) \<and>
      counter_value (REGISTRY (snd (track_http_request func request w))) http_requests_total
          [http_method request, path request, py_str_int (status_code response)] =
        num_add
          (counter_value (REGISTRY w1) http_requests_total
             [http_method request, path request, py_str_int (status_code response)])
          (Fin 1)) \<and>
   (func request w = (Inl e, w1) \<and> is_Exception e \<longrightarrow>
      track_http_request func request w =
        (Inl e,
         w1\<lparr>REGISTRY :=
           add_to_counter http_requests_total
             [http_method request, path request, ''500''] (Fin 1) (REGISTRY w1)\<rparr>) \<and>
      counter_value (REGISTRY (snd (track_http_request func request w))) http_requests_total
          [http_method request, path request, ''500''] =
        num_add
          (counter_value (REGISTRY w1) http_requests_total
             [http_method request, path request, ''500''])
          (Fin 1)) \<and>
   (func request w = (Inl e, w1) \<and> \<not> is_Exception e \<longrightarrow>
      track_http_request func request w = (Inl e, w1))"
proof (intro conjI impI)
  assume f: "func request w = (Inr response, w1)"
  note eq = track_http_request_success [where func = func and request = request and w = w, OF f]
  show "track_http_request func request w =
        (Inr response,
         w1\<lparr>REGISTRY :=
           add_to_counter http_requests_total
             [http_method request, path request, py_str_int (status_code response)] (Fin 1)
             (REGISTRY w1)\<rparr>)"
    by (rule eq)
  show "counter_value (REGISTRY (snd (track_http_request func request w))) http_requests_total
          [http_method request, path request, py_str_int (status_code response)] =
        num_add
          (counter_value (REGISTRY w1) http_requests_total
             [http_method request, path request, py_str_int (status_code response)])
          (Fin 1)"
    by (simp add: eq counter_value_add_to_counter)
next
  assume a: "func request w = (Inl e, w1) \<and> is_Exception e"
  then have f: "func request w = (Inl e, w1)" and e: "is_Exception e" by simp_all
  note eq = track_http_request_failure [where func = func and request = request and w = w, OF f]
  show eq': "track_http_request func request w =
        (Inl e,
         w1\<lparr>REGISTRY :=
           add_to_counter http_requests_total
             [http_method request, path request, ''500''] (Fin 1) (REGISTRY w1)\<rparr>)"
    using e by (simp add: eq)
  show "counter_value (REGISTRY (snd (track_http_request func request w))) http_requests_total
          [http_method request, path request, ''500''] =
        num_add
          (counter_value (REGISTRY w1) http_requests_total
             [http_method request, path request, ''500''])
          (Fin 1)"
    by (simp add: eq' counter_value_add_to_counter)
next
  assume "func request w = (Inl e, w1) \<and> \<not> is_Exception e"
  then have f: "func request w = (Inl e, w1)" and e: "\<not> is_Exception e" by simp_all
  show "track_http_request func request w = (Inl e, w1)"
    using e
    by (simp add: track_http_request_failure
        [where func = func and request = request and w = w, OF f])
qed

theorem http_request_counted_witness:
  "(\<lambda>req. return \<lparr>status_code = 200\<rparr>) \<lparr>http_method = ''GET'', path = ''/health''\<rparr>
      initial_world = (Inr \<lparr>status_code = 200\<rparr>, initial_world) \<and>
   fst (track_http_request (\<lambda>req. return \<lparr>status_code = 200\<rparr>)
          \<lparr>http_method = ''GET'', path = ''/health''\<rparr> initial_world) =
     Inr \<lparr>status_code = 200\<rparr> \<and>
   counter_value
     (REGISTRY (snd (track_http_request (\<lambda>req. return \<lparr>status_code = 200\<rparr>)
        \<lparr>http_method = ''GET'', path = ''/health''\<rparr> initial_world)))
     http_requests_total [''GET'', ''/health'', ''200''] = Fin 1 \<and>
   (\<lambda>req. raise (PyExc True ''KeyError'' ''id'') :: response act)
      \<lparr>http_method = ''POST'', path = ''/tickets''\<rparr> initial_world =
     (Inl (PyExc True ''KeyError'' ''id''), initial_world) \<and>
   is_Exception (PyExc True ''KeyError'' ''id'') \<and>
   counter_value
     (REGISTRY (snd (track_http_request
        (\<lambda>req. raise (PyExc True ''KeyError'' ''id'') :: response act)
        \<lparr>http_method = ''POST'', path = ''/tickets''\<rparr> initial_world)))
     http_requests_total [''POST'', ''/tickets'', ''500''] = Fin 1"
proof -
  let ?q = "\<lparr>http_method = ''GET'', path = ''/health''\<rparr>"
  let ?p = "\<lparr>status_code = 200\<rparr>"
  let ?f = "\<lambda>req :: request. return ?p :: response act"
  let ?q' = "\<lparr>http_method = ''POST'', path = ''/tickets''\<rparr>"
  let ?e = "PyExc True ''KeyError'' ''id''"
  let ?g = "\<lambda>req :: request. raise ?e :: response act"
  have f: "?f ?q initial_world = (Inr ?p, initial_world)" by (simp add: return_def)
  have g: "?g ?q' initial_world = (Inl ?e, initial_world)" by (simp add: raise_def)
  have e: "is_Exception ?e" by simp
  note t = http_request_counted
    [where func = ?f and request = ?q and w = initial_world and response = ?p
       and ?w1.0 = initial_world, THEN conjunct1, rule_format, OF f]
  note s = http_request_counted
    [where func = ?g and request = ?q' and w = initial_world and e = ?e
       and ?w1.0 = initial_world, THEN conjunct2, THEN conjunct1, rule_format, OF conjI,
     OF g e]
  have c1: "fst (track_http_request ?f ?q initial_world) = Inr ?p"
    using t [THEN conjunct1] by simp
  have c2: "counter_value (REGISTRY (snd (track_http_request ?f ?q initial_world)))
      http_requests_total [''GET'', ''/health'', ''200''] = Fin 1"
    using t [THEN conjunct2]
    by (simp add: py_str_int_200 counter_value_def initial_world_def initial_registry_def)
  have c3: "counter_value (REGISTRY (snd (track_http_request ?g ?q' initial_world)))
      http_requests_total [''POST'', ''/tickets'', ''500''] = Fin 1"
    using s [THEN conjunct2]
    by (simp add: counter_value_def initial_world_def initial_registry_def)
  show ?thesis by (intro conjI f c1 c2 g e c3)
qed

text \<open>
  C6 as stated fails: a handler that is cancelled raises \<^verbatim>\<open>CancelledError\<close>, which is
  not an instance of \<^verbatim>\<open>Exception\<close>; the wrapper propagates it and the series with the
  status 500 is not incremented.
\<close>

theorem http_cancelled_counterexample:
  "track_http_request cancelled_handle_request \<lparr>http_method = ''GET'', path = ''/tickets''\<rparr>
     initial_world = (Inl CancelledError, initial_world) \<and>
   counter_value
     (REGISTRY (snd (track_http_request cancelled_handle_request
        \<lparr>http_method = ''GET'', path = ''/tickets''\<rparr> initial_world)))
     http_requests_total [''GET'', ''/tickets'', ''500''] = Fin 0"
proof -
  have f: "cancelled_handle_request \<lparr>http_method = ''GET'', path = ''/tickets''\<rparr>
      initial_world = (Inl CancelledError, initial_world)"
    by (simp add: cancelled_handle_request_def raise_def)
  have run: "track_http_request cancelled_handle_request
      \<lparr>http_method = ''GET'', path = ''/tickets''\<rparr> initial_world =
      (Inl CancelledError, initial_world)"
    using track_http_request_failure
      [where func = cancelled_handle_request and w = initial_world, OF f]
    by (simp add: CancelledError_def)
  show ?thesis by (simp add: run counter_value_initial)
qed

section \<open>The budget and savings refresh: fixed values\<close>

lemma update_cost_budget_tracking_eq:
  "update_cost_budget_tracking w =
     (Inr (),
      w\<lparr>REGISTRY :=
        put_gauge monthly_cost_savings_dollars [] (Fin 1500)
          (put_gauge support_agent_cost_savings_dollars [] (Fin 4000)
             (put_gauge cost_budget_monthly [''monitoring''] (Fin 200)
                (put_gauge cost_budget_monthly [''vector_db''] (Fin 300)
                   (put_gauge cost_budget_monthly [''aws_infrastructure''] (Fin 800)
                      (put_gauge cost_budget_monthly [''llm_api''] (Fin 1200)
                         (REGISTRY w))))))\<rparr>)"
  by (simp add: update_cost_budget_tracking_def budgets_def bind_act_def gauge_set_def
      return_def Let_def)

text \<open>
  C8: every invocation of the budget and savings refresh sets the four per-category
  monthly-budget gauges to the fixed values of the table (llm_api 1200,
  aws_infrastructure 800, vector_db 300, monitoring 200), the support-staffing-savings
  gauge to 4000 and the net-savings gauge to 4000 - 2500 = 1500, whatever the world it
  runs in; it touches no counter and no histogram, and it does not raise.
\<close>

theorem budget_refresh_fixed_values:
  "fst (update_cost_budget_tracking w) = Inr () \<and>
   gauge_values (REGISTRY (snd (update_cost_budget_tracking w))) cost_budget_monthly
     [''llm_api''] = Some (Fin 1200) \<and>
   gauge_values (REGISTRY (snd (update_cost_budget_tracking w))) cost_budget_monthly
     [''aws_infrastructure''] = Some (Fin 800) \<and>
   gauge_values (REGISTRY (snd (update_cost_budget_tracking w))) cost_budget_monthly
     [''vector_db''] = Some (Fin 300) \<and>
   gauge_values (REGISTRY (snd (update_cost_budget_tracking w))) cost_budget_monthly
     [''monitoring''] = Some (Fin 200) \<and>
   gauge_values (REGISTRY (snd (update_cost_budget_tracking w)))
     support_agent_cost_savings_dollars [] = Some (Fin 4000) \<and>
   gauge_values (REGISTRY (snd (update_cost_budget_tracking w)))
     monthly_cost_savings_dollars [] = Some (Fin (4000 - 2500)) \<and>
   gauge_values (REGISTRY (snd (update_cost_budget_tracking w)))
     monthly_cost_savings_dollars [] = Some (Fin 1500) \<and>
   counter_values (REGISTRY (snd (update_cost_budget_tracking w))) =
     counter_values (REGISTRY w) \<and>
   histogram_obs (REGISTRY (snd (update_cost_budget_tracking w))) =
     histogram_obs (REGISTRY w) \<and>
   logger (snd (update_cost_budget_tracking w)) = logger w"
  by (simp add: update_cost_budget_tracking_eq put_gauge_def)

section \<open>Counters are exact sums\<close>

lemma accepted_on_Nil [simp]: "accepted_on c ls [] = []"
  by (simp add: accepted_on_def)

lemma accepted_on_append [simp]:
  "accepted_on c ls (xs @ ys) = accepted_on c ls xs @ accepted_on c ls ys"
  by (simp add: accepted_on_def)







end
